theory Spec2Isabelle
  imports Complex_Main "HOL-Library.Sublist"
begin

section \<open>Host patterns (config.ts, parseHostPatterns)\<close>

text \<open>
  The callback of \<^verbatim>\<open>parseHostPatterns\<close> turns one trimmed wildcard pattern into a
  regular expression in three steps:
  \<^verbatim>\<open>
    const regexPattern = trimmed
      .replace(/[.+?^${}()|[\]\\]/g, '\\$&')   // escape special regex chars except *
      .replace(/\*/g, '.*');                    // convert * to .*
    return new RegExp(`^${regexPattern}$`, 'i');
  \<close>
  The two replacements are modelled on strings, character by character. The regular
  expression engine of the runtime is modelled for the fragment these strings use: a
  literal character, an escaped syntax character, the dot, and the star quantifier, between
  the anchors, with the flag \<^verbatim>\<open>i\<close>. A string is a list of 8-bit characters; hostnames
  delivered by the URL parser are ASCII.
\<close>

definition backslash :: char where
  "backslash = CHR 0x5C"

text \<open>The character class \<^verbatim>\<open>[.+?^${}()|[\]\\]\<close> of the first replacement.\<close>

definition regexSpecial :: "char list" where
  "regexSpecial = ''.+?^${}()|[]'' @ [backslash]"

definition escapeSpecial :: "string \<Rightarrow> string" where
  "escapeSpecial s = concat (map (\<lambda>c. if c \<in> set regexSpecial then [backslash, c] else [c]) s)"

definition starToDotStar :: "string \<Rightarrow> string" where
  "starToDotStar s = concat (map (\<lambda>c. if c = CHR ''*'' then ''.*'' else [c]) s)"

definition regexPattern :: "string \<Rightarrow> string" where
  "regexPattern trimmed = starToDotStar (escapeSpecial trimmed)"

subsection \<open>The regular expression fragment\<close>

datatype rx_token = TLit char | TDot | TStar

datatype rx_atom = Lit char | AnyChar

datatype rx_term = One rx_atom | Many rx_atom

text \<open>
  A compiled expression \<^verbatim>\<open>new RegExp("^" + source + "$", "i")\<close>: the terms between the
  anchors. \<open>None\<close> stands for the SyntaxError of the constructor (and for syntax outside
  the fragment).
\<close>

type_synonym RegExp = "rx_term list"

fun rx_lex :: "string \<Rightarrow> rx_token list option" where
  "rx_lex [] = Some []"
| "rx_lex [c] =
     (if c = CHR ''.'' then Some [TDot]
      else if c = CHR ''*'' then Some [TStar]
      else if c \<in> set regexSpecial then None
      else Some [TLit c])"
| "rx_lex (c # d # ds) =
     (if c = backslash then
        (if d \<in> set regexSpecial \<or> d = CHR ''*''
         then map_option ((#) (TLit d)) (rx_lex ds) else None)
      else if c = CHR ''.'' then map_option ((#) TDot) (rx_lex (d # ds))
      else if c = CHR ''*'' then map_option ((#) TStar) (rx_lex (d # ds))
      else if c \<in> set regexSpecial then None
      else map_option ((#) (TLit c)) (rx_lex (d # ds)))"

fun rx_atom_of :: "rx_token \<Rightarrow> rx_atom" where
  "rx_atom_of (TLit c) = Lit c"
| "rx_atom_of TDot = AnyChar"
| "rx_atom_of TStar = AnyChar"

fun rx_terms :: "rx_token list \<Rightarrow> RegExp option" where
  "rx_terms [] = Some []"
| "rx_terms (TStar # ts) = None"
| "rx_terms (a # TStar # ts) = map_option ((#) (Many (rx_atom_of a))) (rx_terms ts)"
| "rx_terms (a # ts) = map_option ((#) (One (rx_atom_of a))) (rx_terms ts)"

definition newRegExp :: "string \<Rightarrow> RegExp option" where
  "newRegExp source = (case rx_lex source of None \<Rightarrow> None | Some ts \<Rightarrow> rx_terms ts)"

text \<open>
  Flag \<^verbatim>\<open>i\<close>: two characters are compared after canonicalisation, which on ASCII is
  \<^verbatim>\<open>toUpperCase\<close>.
\<close>

definition toUpperCase :: "char \<Rightarrow> char" where
  "toUpperCase c =
     (case map_of (zip ''abcdefghijklmnopqrstuvwxyz'' ''ABCDEFGHIJKLMNOPQRSTUVWXYZ'') c of
        Some u \<Rightarrow> u | None \<Rightarrow> c)"

text \<open>The dot matches every character but a line terminator.\<close>

definition lineTerminator :: "char \<Rightarrow> bool" where
  "lineTerminator c = (c = CHR 0x0A \<or> c = CHR 0x0D)"

fun atom_matches :: "rx_atom \<Rightarrow> char \<Rightarrow> bool" where
  "atom_matches (Lit a) c = (toUpperCase a = toUpperCase c)"
| "atom_matches AnyChar c = (\<not> lineTerminator c)"

text \<open>
  \<^verbatim>\<open>pattern.test(hostname)\<close> for an anchored expression without the flags \<^verbatim>\<open>g\<close>,
  \<^verbatim>\<open>y\<close> and \<^verbatim>\<open>m\<close>: the whole string has to match, and the call has no state.
\<close>

fun RegExp_test :: "RegExp \<Rightarrow> string \<Rightarrow> bool" where
  "RegExp_test [] s = (s = [])"
| "RegExp_test (Many a # r) [] = RegExp_test r []"
| "RegExp_test (Many a # r) (c # cs) =
     (RegExp_test r (c # cs) \<or> (atom_matches a c \<and> RegExp_test (Many a # r) cs))"
| "RegExp_test (One a # r) [] = False"
| "RegExp_test (One a # r) (c # cs) = (atom_matches a c \<and> RegExp_test r cs)"

text \<open>The callback of \<^verbatim>\<open>parseHostPatterns\<close> on one trimmed, non-empty pattern.\<close>

definition hostPattern :: "string \<Rightarrow> RegExp option" where
  "hostPattern trimmed = newRegExp (regexPattern trimmed)"

text \<open>
  The claim's own words, for comparison with the code: the match is anchored and
  case-insensitive, \<^verbatim>\<open>*\<close> stands for any run of characters, every other pattern
  character stands for itself.
\<close>

fun wildcard_matches :: "string \<Rightarrow> string \<Rightarrow> bool" where
  "wildcard_matches [] h = (h = [])"
| "wildcard_matches (p # ps) h =
     (if p = CHR ''*'' then (\<exists>t \<in> set (suffixes h). wildcard_matches ps t)
      else (case h of [] \<Rightarrow> False
            | c # cs \<Rightarrow> toUpperCase p = toUpperCase c \<and> wildcard_matches ps cs))"

text \<open>
  What the two replacements and the constructor make of one pattern character: the tokens
  the expression source is read as, and the term of the compiled expression.
\<close>

definition pattern_tokens :: "char \<Rightarrow> rx_token list" where
  "pattern_tokens c = (if c = CHR ''*'' then [TDot, TStar] else [TLit c])"

definition pattern_term :: "char \<Rightarrow> rx_term" where
  "pattern_term c = (if c = CHR ''*'' then Many AnyChar else One (Lit c))"

section \<open>Connection admission (server.ts, the connection handler up to connectUpstream)\<close>

text \<open>
  The fields of \<^verbatim>\<open>config\<close> that decide what the relay does for a connection (the
  durations of the timers do not: the model has no clock, a timer fires when the event
  loop says so). The patterns are the compiled expressions \<^verbatim>\<open>parseHostPatterns\<close>
  returns.
\<close>

record Config =
  allowedOrigins :: "string list"
  token :: "string option"
  maxBufferedBytes :: int
  allowedUpstreamHostPatterns :: "RegExp list"

text \<open>
  The URL parser and the percent-decoder belong to the runtime, so they are parameters:
  \<open>None\<close> is the exception they throw. Of a parsed URL the handler reads the protocol
  and the hostname.
\<close>

record ParsedURL =
  protocol :: string
  hostname :: string

record Runtime =
  decodeURIComponent :: "string \<Rightarrow> string option"
  newURL :: "string \<Rightarrow> ParsedURL option"

text \<open>
  Of the request the handler reads the query parameters (\<open>None\<close> when
  \<^verbatim>\<open>new URL(request.url || "", ...)\<close> throws) and the Origin header. A query is a list
  of pairs; \<^verbatim>\<open>params.get(name)\<close> is the first value under that name.
\<close>

record Request =
  searchParams :: "(string \<times> string) list option"
  origin :: "string option"

datatype outcome =
    Rejected nat string   \<comment> \<open>\<^verbatim>\<open>downstream.close(code, reason); return\<close>\<close>
  | Connecting string     \<comment> \<open>\<^verbatim>\<open>connectUpstream(upstreamUrl, log)\<close> is reached\<close>

definition validateOrigin :: "Config \<Rightarrow> string option \<Rightarrow> bool" where
  "validateOrigin cfg orig =
     (if length (allowedOrigins cfg) = 0 then True
      else (case orig of
              None \<Rightarrow> False
            | Some v \<Rightarrow> if v = [] then False else v \<in> set (allowedOrigins cfg)))"

definition validateToken :: "Config \<Rightarrow> string option \<Rightarrow> bool" where
  "validateToken cfg providedToken =
     (case token cfg of
        None \<Rightarrow> True
      | Some t \<Rightarrow> if t = [] then True else providedToken = Some t)"

text \<open>
  The inner \<^verbatim>\<open>try\<close> block: decode, parse, scheme, host patterns. \<open>Inl\<close> is the
  \<^verbatim>\<open>downstream.close(code, reason); return\<close> of a failed check, \<open>Inr\<close> the value of
  \<^verbatim>\<open>upstreamUrl\<close> after the block.
\<close>

definition validateUpstream :: "Runtime \<Rightarrow> Config \<Rightarrow> string \<Rightarrow> (nat \<times> string) + string" where
  "validateUpstream rt cfg upstreamParam =
     (case decodeURIComponent rt upstreamParam of
        None \<Rightarrow> Inl (4002, ''Invalid upstream URL'')
      | Some upstreamUrl \<Rightarrow>
          (case newURL rt upstreamUrl of
             None \<Rightarrow> Inl (4002, ''Invalid upstream URL'')
           | Some parsedUrl \<Rightarrow>
               if protocol parsedUrl \<noteq> ''wss:'' \<and> protocol parsedUrl \<noteq> ''ws:''
               then Inl (4003, ''Invalid upstream protocol'')
               else if length (allowedUpstreamHostPatterns cfg) > 0 then
                 (let isAllowed = list_ex (\<lambda>pattern. RegExp_test pattern (hostname parsedUrl))
                                    (allowedUpstreamHostPatterns cfg)
                  in if \<not> isAllowed then Inl (4004, ''Upstream host not allowed'')
                     else Inr upstreamUrl)
               else Inl (4004, ''No upstream host patterns configured'')))"

text \<open>\<^verbatim>\<open>params.get("token") || undefined\<close>\<close>

definition tokenParam :: "(string \<times> string) list \<Rightarrow> string option" where
  "tokenParam params =
     (case map_of params ''token'' of
        None \<Rightarrow> None
      | Some t \<Rightarrow> if t = [] then None else Some t)"

definition admission :: "Runtime \<Rightarrow> Config \<Rightarrow> Request \<Rightarrow> outcome" where
  "admission rt cfg request =
     (case searchParams request of
        None \<Rightarrow> Rejected 1011 ''Internal server error''
      | Some params \<Rightarrow>
          (case map_of params ''upstream'' of
             None \<Rightarrow> Rejected 4002 ''Missing upstream URL''
           | Some upstreamParam \<Rightarrow>
               if upstreamParam = [] then Rejected 4002 ''Missing upstream URL''
               else
                 (case validateUpstream rt cfg upstreamParam of
                    Inl (code, reason) \<Rightarrow> Rejected code reason
                  | Inr upstreamUrl \<Rightarrow>
                      let providedToken = tokenParam params
                      in if \<not> validateOrigin cfg (origin request)
                         then Rejected 4000 ''Origin not allowed''
                         else if \<not> validateToken cfg providedToken
                         then Rejected 4001 ''Invalid or missing token''
                         else Connecting upstreamUrl)))"

text \<open>A runtime for concrete requests: the decoder is the identity and the parser knows
  the URLs of the examples.\<close>

definition exampleRuntime :: Runtime where
  "exampleRuntime =
     \<lparr> decodeURIComponent = Some,
       newURL = map_of
         [(''wss://venus.web.telegram.org/apiws'',
             \<lparr> protocol = ''wss:'', hostname = ''venus.web.telegram.org'' \<rparr>),
          (''wss://telegram.org.evil.com/apiws'',
             \<lparr> protocol = ''wss:'', hostname = ''telegram.org.evil.com'' \<rparr>),
          (''https://venus.web.telegram.org/apiws'',
             \<lparr> protocol = ''https:'', hostname = ''venus.web.telegram.org'' \<rparr>)] \<rparr>"

section \<open>Effects\<close>

datatype leg = Downstream | Upstream

datatype level = Trace | Debug | Info | Warn | Error

datatype timer = DownstreamIdleTimer | PingTimer | UpstreamIdleTimer

type_synonym Buffer = "char list"

text \<open>
  What a handler does to the outside world, in the order it does it: a log line, a call on
  one of the two sockets, a call on the timer API. A log line is its level and its message;
  the line that \<^verbatim>\<open>cleanup\<close> logs carries the code, the reason and the two byte
  counters (not the duration, which is read off the clock). The callbacks passed to
  \<^verbatim>\<open>send\<close> only log and are left out.
\<close>

datatype effect =
    Log level string
  | LogConnectionClosed nat string nat nat
  | Send leg Buffer
  | Close leg nat string
  | Terminate leg
  | Pause leg
  | Resume leg
  | SendPing leg
  | SetTimer timer
  | ClearTimer timer

section \<open>Backpressure (util/backpressure.ts)\<close>

record BackpressureState =
  isPaused :: bool
  totalBytes :: nat

text \<open>
  \<^verbatim>\<open>checkBackpressure(ws, state, opposite, log, direction)\<close>: \<open>buffered\<close> is
  \<^verbatim>\<open>ws.bufferedAmount\<close> as read by the function, \<open>opposite\<close> names the socket that is
  paused. The result is the state record after the call and the calls made.
\<close>

definition checkBackpressure ::
  "Config \<Rightarrow> int \<Rightarrow> BackpressureState \<Rightarrow> leg \<Rightarrow> BackpressureState \<times> effect list" where
  "checkBackpressure cfg buffered state opposite =
     (if buffered > maxBufferedBytes cfg \<and> \<not> isPaused state
      then (state\<lparr>isPaused := True\<rparr>,
            [Pause opposite,
             Log Warn ''Backpressure threshold exceeded, pausing opposite stream''])
      else (state, []))"

definition handleDrain ::
  "Config \<Rightarrow> int \<Rightarrow> BackpressureState \<Rightarrow> leg \<Rightarrow> BackpressureState \<times> effect list" where
  "handleDrain cfg buffered state opposite =
     (if isPaused state \<and> real_of_int buffered < real_of_int (maxBufferedBytes cfg) * 0.5
      then (state\<lparr>isPaused := False\<rparr>,
            [Resume opposite,
             Log Info ''Backpressure relieved, resuming opposite stream''])
      else (state, []))"

section \<open>The relay of one connection (server.ts, upstream/connect.ts)\<close>

text \<open>
  The two sockets belong to the WebSocket library. The relay reads their
  \<^verbatim>\<open>readyState\<close> and calls \<^verbatim>\<open>send\<close>, \<^verbatim>\<open>ping\<close>, \<^verbatim>\<open>pause\<close>, \<^verbatim>\<open>resume\<close>,
  \<^verbatim>\<open>close\<close> and \<^verbatim>\<open>terminate\<close> on them. Of the library the model keeps the
  \<^verbatim>\<open>readyState\<close> of each socket: it becomes \<open>OPEN\<close> when the open event is emitted,
  \<open>CLOSED\<close> when the close event is emitted, and \<^verbatim>\<open>close()\<close> and \<^verbatim>\<open>terminate()\<close>
  leave a socket that is not yet \<open>CLOSED\<close> in \<open>CLOSING\<close>, as does the library itself
  before it emits the error event.
\<close>

datatype readyState = CONNECTING | OPEN | CLOSING | CLOSED

text \<open>
  A timer variable holds \<^verbatim>\<open>null\<close> (\<open>None\<close>) or a Timeout object, which is still going to
  call back (\<open>Active\<close>) or has called back or been cleared already (\<open>Expired\<close>).
\<close>

datatype Timeout = Active | Expired

text \<open>
  The variables that the closures of one connection share: \<^verbatim>\<open>stats\<close> (its two
  counters), the locals of the connection handler of server.ts, and \<^verbatim>\<open>idleTimer\<close>, the
  local of \<^verbatim>\<open>connectUpstream\<close>; then the \<^verbatim>\<open>readyState\<close> of the two sockets and the
  effects so far, oldest first.
\<close>

record Connection =
  bytesDownstreamToUpstream :: nat
  bytesUpstreamToDownstream :: nat
  downstreamIdleTimer :: "Timeout option"
  pingTimer :: "Timeout option"
  downstreamAlive :: bool
  closed :: bool
  pendingMessages :: "Buffer list"
  downstreamBackpressure :: BackpressureState
  upstreamBackpressure :: BackpressureState
  idleTimer :: "Timeout option"
  downstreamReadyState :: readyState
  upstreamReadyState :: readyState
  effects :: "effect list"

definition emit :: "effect list \<Rightarrow> Connection \<Rightarrow> Connection" where
  "emit es s = s\<lparr>effects := effects s @ es\<rparr>"

subsection \<open>The sockets\<close>

fun readyStateOf :: "leg \<Rightarrow> Connection \<Rightarrow> readyState" where
  "readyStateOf Downstream s = downstreamReadyState s"
| "readyStateOf Upstream s = upstreamReadyState s"

fun setReadyState :: "leg \<Rightarrow> readyState \<Rightarrow> Connection \<Rightarrow> Connection" where
  "setReadyState Downstream r s = s\<lparr>downstreamReadyState := r\<rparr>"
| "setReadyState Upstream r s = s\<lparr>upstreamReadyState := r\<rparr>"

definition afterCloseCall :: "readyState \<Rightarrow> readyState" where
  "afterCloseCall r = (if r = CLOSED then CLOSED else CLOSING)"

definition ws_close :: "leg \<Rightarrow> nat \<Rightarrow> string \<Rightarrow> Connection \<Rightarrow> Connection" where
  "ws_close l code reason s =
     emit [Close l code reason] (setReadyState l (afterCloseCall (readyStateOf l s)) s)"

definition ws_terminate :: "leg \<Rightarrow> Connection \<Rightarrow> Connection" where
  "ws_terminate l s =
     emit [Terminate l] (setReadyState l (afterCloseCall (readyStateOf l s)) s)"

subsection \<open>server.ts: the closures of the connection handler\<close>

definition resetDownstreamIdleTimer :: "Connection \<Rightarrow> Connection" where
  "resetDownstreamIdleTimer s =
     (let s1 = (if downstreamIdleTimer s \<noteq> None then emit [ClearTimer DownstreamIdleTimer] s
                else s)
      in emit [SetTimer DownstreamIdleTimer] (s1\<lparr>downstreamIdleTimer := Some Active\<rparr>))"

definition safeCode :: "nat \<Rightarrow> nat" where
  "safeCode code = (if code = 1005 \<or> code = 1006 then 1000 else code)"

definition closeOrTerminate :: "leg \<Rightarrow> nat \<Rightarrow> string \<Rightarrow> Connection \<Rightarrow> Connection" where
  "closeOrTerminate l code reason s =
     (if readyStateOf l s = OPEN then ws_close l code reason s else ws_terminate l s)"

definition cleanup :: "nat \<Rightarrow> string \<Rightarrow> Connection \<Rightarrow> Connection" where
  "cleanup code reason s =
     (if closed s then s
      else
        let s1 = emit [LogConnectionClosed code reason
                         (bytesDownstreamToUpstream s) (bytesUpstreamToDownstream s)]
                   (s\<lparr>closed := True\<rparr>);
            s2 = (if downstreamIdleTimer s1 \<noteq> None
                  then emit [ClearTimer DownstreamIdleTimer] (s1\<lparr>downstreamIdleTimer := None\<rparr>)
                  else s1);
            s3 = (if pingTimer s2 \<noteq> None
                  then emit [ClearTimer PingTimer] (s2\<lparr>pingTimer := None\<rparr>)
                  else s2);
            s4 = closeOrTerminate Downstream (safeCode code) reason s3
        in closeOrTerminate Upstream (safeCode code) reason s4)"

text \<open>The callback of \<^verbatim>\<open>setTimeout\<close> in \<^verbatim>\<open>resetDownstreamIdleTimer\<close>.\<close>

definition downstreamIdleTimeout :: "Connection \<Rightarrow> Connection" where
  "downstreamIdleTimeout s =
     cleanup 1000 ''Idle timeout''
       (emit [Log Warn ''Downstream idle timeout reached, closing connection''] s)"

text \<open>The callback of \<^verbatim>\<open>setInterval\<close>.\<close>

definition pingTick :: "Connection \<Rightarrow> Connection" where
  "pingTick s =
     (if \<not> downstreamAlive s
      then cleanup 1000 ''Ping timeout''
             (emit [Log Warn ''Downstream ping timeout, terminating connection''] s)
      else emit [SendPing Downstream, Log Trace ''Sent ping to downstream'']
             (s\<lparr>downstreamAlive := False\<rparr>))"

text \<open>
  \<^verbatim>\<open>downstream.on("message", (data, isBinary) => ...)\<close>; \<open>buffered\<close> is
  \<^verbatim>\<open>upstream.bufferedAmount\<close> as \<^verbatim>\<open>checkBackpressure\<close> reads it after the send.
\<close>

definition downstream_on_message ::
  "Config \<Rightarrow> Buffer \<Rightarrow> bool \<Rightarrow> int \<Rightarrow> Connection \<Rightarrow> Connection" where
  "downstream_on_message cfg data isBinary buffered s =
     (if \<not> isBinary
      then emit [Log Warn ''Received non-binary message from downstream, ignoring''] s
      else
        let bytes = length data;
            s1 = emit [Log Debug ''Received message from downstream'']
                   (s\<lparr>bytesDownstreamToUpstream := bytesDownstreamToUpstream s + bytes\<rparr>);
            s2 = resetDownstreamIdleTimer s1
        in if upstreamReadyState s2 = OPEN then
             (let s3 = emit [Send Upstream data] s2;
                  (state, es) = checkBackpressure cfg buffered (upstreamBackpressure s3) Downstream
              in emit es (s3\<lparr>upstreamBackpressure := state\<rparr>))
           else if upstreamReadyState s2 = CONNECTING then
             (emit [Log Debug ''Buffering message until upstream is ready''] s2)
               \<lparr>pendingMessages := pendingMessages s2 @ [data]\<rparr>
           else emit [Log Warn ''Upstream closed/closing, dropping message''] s2)"

definition downstream_on_pong :: "Connection \<Rightarrow> Connection" where
  "downstream_on_pong s =
     resetDownstreamIdleTimer
       ((emit [Log Trace ''Received pong from downstream''] s)\<lparr>downstreamAlive := True\<rparr>)"

definition downstream_on_ping :: "Connection \<Rightarrow> Connection" where
  "downstream_on_ping s =
     resetDownstreamIdleTimer (emit [Log Trace ''Received ping from downstream''] s)"

definition downstream_on_close :: "nat \<Rightarrow> string \<Rightarrow> Connection \<Rightarrow> Connection" where
  "downstream_on_close code reason s =
     cleanup code (if reason = [] then ''Downstream closed'' else reason)
       (emit [Log Info ''Downstream closed''] s)"

definition downstream_on_error :: "Connection \<Rightarrow> Connection" where
  "downstream_on_error s =
     cleanup 1011 ''Downstream error'' (emit [Log Error ''Downstream error''] s)"

definition upstream_on_open :: "Connection \<Rightarrow> Connection" where
  "upstream_on_open s =
     (let s1 = emit [Log Info ''Upstream connected successfully''] s
      in if length (pendingMessages s1) > 0 then
           (emit (Log Info ''Flushing buffered messages to upstream''
                    # map (Send Upstream) (pendingMessages s1)) s1)
             \<lparr>pendingMessages := []\<rparr>
         else s1)"

text \<open>
  \<^verbatim>\<open>upstream.on("message", ...)\<close> of server.ts; \<open>buffered\<close> is
  \<^verbatim>\<open>downstream.bufferedAmount\<close>.
\<close>

definition upstream_on_message ::
  "Config \<Rightarrow> Buffer \<Rightarrow> bool \<Rightarrow> int \<Rightarrow> Connection \<Rightarrow> Connection" where
  "upstream_on_message cfg data isBinary buffered s =
     (if \<not> isBinary
      then emit [Log Warn ''Received non-binary message from upstream, ignoring''] s
      else
        let bytes = length data;
            s1 = emit [Log Debug ''Received message from upstream'']
                   (s\<lparr>bytesUpstreamToDownstream := bytesUpstreamToDownstream s + bytes\<rparr>)
        in if downstreamReadyState s1 = OPEN then
             (let s2 = emit [Send Downstream data] s1;
                  (state, es) = checkBackpressure cfg buffered (downstreamBackpressure s2) Upstream
              in emit es (s2\<lparr>downstreamBackpressure := state\<rparr>))
           else emit [Log Warn ''Downstream not open, dropping message''] s1)"

definition upstream_on_close :: "nat \<Rightarrow> string \<Rightarrow> Connection \<Rightarrow> Connection" where
  "upstream_on_close code reason s =
     cleanup code (if reason = [] then ''Upstream closed'' else reason)
       (emit [Log Info ''Upstream closed''] s)"

definition upstream_on_error :: "Connection \<Rightarrow> Connection" where
  "upstream_on_error s =
     cleanup 1011 ''Upstream error'' (emit [Log Error ''Upstream error''] s)"

definition downstream_on_drain :: "Config \<Rightarrow> int \<Rightarrow> Connection \<Rightarrow> Connection" where
  "downstream_on_drain cfg buffered s =
     (let (state, es) = handleDrain cfg buffered (downstreamBackpressure s) Upstream
      in emit es (s\<lparr>downstreamBackpressure := state\<rparr>))"

definition upstream_on_drain :: "Config \<Rightarrow> int \<Rightarrow> Connection \<Rightarrow> Connection" where
  "upstream_on_drain cfg buffered s =
     (let (state, es) = handleDrain cfg buffered (upstreamBackpressure s) Downstream
      in emit es (s\<lparr>upstreamBackpressure := state\<rparr>))"

subsection \<open>upstream/connect.ts: the closures of connectUpstream\<close>

definition resetIdleTimer :: "Connection \<Rightarrow> Connection" where
  "resetIdleTimer s =
     (let s1 = (if idleTimer s \<noteq> None then emit [ClearTimer UpstreamIdleTimer] s else s)
      in emit [SetTimer UpstreamIdleTimer] (s1\<lparr>idleTimer := Some Active\<rparr>))"

text \<open>The callback of \<^verbatim>\<open>setTimeout\<close> in \<^verbatim>\<open>resetIdleTimer\<close>.\<close>

definition upstreamIdleTimeout :: "Connection \<Rightarrow> Connection" where
  "upstreamIdleTimeout s =
     ws_terminate Upstream
       (emit [Log Warn ''Upstream idle timeout reached, closing connection''] s)"

definition connect_on_open :: "Connection \<Rightarrow> Connection" where
  "connect_on_open s = resetIdleTimer (emit [Log Info ''Upstream connection opened''] s)"

definition connect_on_message :: "Connection \<Rightarrow> Connection" where
  "connect_on_message s = resetIdleTimer (emit [Log Trace ''Received message from upstream''] s)"

definition connect_on_ping :: "Connection \<Rightarrow> Connection" where
  "connect_on_ping s = resetIdleTimer (emit [Log Trace ''Received ping from upstream''] s)"

definition connect_on_pong :: "Connection \<Rightarrow> Connection" where
  "connect_on_pong s = resetIdleTimer (emit [Log Trace ''Received pong from upstream''] s)"

definition clearIdleTimer :: "Connection \<Rightarrow> Connection" where
  "clearIdleTimer s =
     (if idleTimer s \<noteq> None then emit [ClearTimer UpstreamIdleTimer] (s\<lparr>idleTimer := None\<rparr>)
      else s)"

definition connect_on_close :: "Connection \<Rightarrow> Connection" where
  "connect_on_close s = clearIdleTimer (emit [Log Info ''Upstream connection closed''] s)"

definition connect_on_error :: "Connection \<Rightarrow> Connection" where
  "connect_on_error s = clearIdleTimer (emit [Log Error ''Upstream connection error''] s)"

subsection \<open>Events\<close>

text \<open>
  What the event loop delivers to one connection. A message event carries the data, the
  flag \<^verbatim>\<open>isBinary\<close> and the \<^verbatim>\<open>bufferedAmount\<close> that the receiving socket reports after
  the send; a drain event carries the \<^verbatim>\<open>bufferedAmount\<close> of the socket that drained; a
  close event carries code and reason.
\<close>

datatype event =
    DownstreamMessage Buffer bool int
  | DownstreamPong
  | DownstreamPing
  | DownstreamClose nat string
  | DownstreamError
  | DownstreamDrain int
  | UpstreamOpen
  | UpstreamMessage Buffer bool int
  | UpstreamPing
  | UpstreamPong
  | UpstreamClose nat string
  | UpstreamError
  | UpstreamDrain int
  | DownstreamIdleTimeoutFires
  | PingTimerFires
  | UpstreamIdleTimeoutFires

text \<open>
  The listeners of an event run in the order of their registration: those of
  \<^verbatim>\<open>connectUpstream\<close> before those of the connection handler. The open event comes once,
  to a socket that is connecting; a timer calls back only while it is active, a timeout
  once and the interval again and again. An event that cannot come leaves the connection
  as it is.
\<close>

fun deliver :: "Config \<Rightarrow> event \<Rightarrow> Connection \<Rightarrow> Connection" where
  "deliver cfg (DownstreamMessage data isBinary buffered) s =
     downstream_on_message cfg data isBinary buffered s"
| "deliver cfg DownstreamPong s = downstream_on_pong s"
| "deliver cfg DownstreamPing s = downstream_on_ping s"
| "deliver cfg (DownstreamClose code reason) s =
     downstream_on_close code reason (s\<lparr>downstreamReadyState := CLOSED\<rparr>)"
| "deliver cfg DownstreamError s =
     downstream_on_error (s\<lparr>downstreamReadyState := afterCloseCall (downstreamReadyState s)\<rparr>)"
| "deliver cfg (DownstreamDrain buffered) s = downstream_on_drain cfg buffered s"
| "deliver cfg UpstreamOpen s =
     (if upstreamReadyState s = CONNECTING
      then upstream_on_open (connect_on_open (s\<lparr>upstreamReadyState := OPEN\<rparr>))
      else s)"
| "deliver cfg (UpstreamMessage data isBinary buffered) s =
     upstream_on_message cfg data isBinary buffered (connect_on_message s)"
| "deliver cfg UpstreamPing s = connect_on_ping s"
| "deliver cfg UpstreamPong s = connect_on_pong s"
| "deliver cfg (UpstreamClose code reason) s =
     upstream_on_close code reason (connect_on_close (s\<lparr>upstreamReadyState := CLOSED\<rparr>))"
| "deliver cfg UpstreamError s =
     upstream_on_error
       (connect_on_error (s\<lparr>upstreamReadyState := afterCloseCall (upstreamReadyState s)\<rparr>))"
| "deliver cfg (UpstreamDrain buffered) s = upstream_on_drain cfg buffered s"
| "deliver cfg DownstreamIdleTimeoutFires s =
     (if downstreamIdleTimer s = Some Active
      then downstreamIdleTimeout (s\<lparr>downstreamIdleTimer := Some Expired\<rparr>)
      else s)"
| "deliver cfg PingTimerFires s = (if pingTimer s = Some Active then pingTick s else s)"
| "deliver cfg UpstreamIdleTimeoutFires s =
     (if idleTimer s = Some Active
      then upstreamIdleTimeout (s\<lparr>idleTimer := Some Expired\<rparr>)
      else s)"

fun run :: "Config \<Rightarrow> event list \<Rightarrow> Connection \<Rightarrow> Connection" where
  "run cfg [] s = s"
| "run cfg (e # es) s = run cfg es (deliver cfg e s)"

text \<open>
  The connection when the handler of server.ts returns: \<^verbatim>\<open>connectUpstream\<close> has created
  the upstream socket, which is connecting, the downstream socket is open, the idle timer
  and the ping interval of the downstream leg are set.
\<close>

definition established :: Connection where
  "established =
     \<lparr> bytesDownstreamToUpstream = 0,
       bytesUpstreamToDownstream = 0,
       downstreamIdleTimer = Some Active,
       pingTimer = Some Active,
       downstreamAlive = True,
       closed = False,
       pendingMessages = [],
       downstreamBackpressure = \<lparr> isPaused = False, totalBytes = 0 \<rparr>,
       upstreamBackpressure = \<lparr> isPaused = False, totalBytes = 0 \<rparr>,
       idleTimer = None,
       downstreamReadyState = OPEN,
       upstreamReadyState = CONNECTING,
       effects = [SetTimer DownstreamIdleTimer, SetTimer PingTimer] \<rparr>"

section \<open>Reading a run\<close>

text \<open>A configuration for concrete runs: threshold 1000, one host pattern, compiled from
  \<^verbatim>\<open>*.web.telegram.org\<close>, no origin list and no token.\<close>

definition exampleConfig :: Config where
  "exampleConfig =
     \<lparr> allowedOrigins = [], token = None, maxBufferedBytes = 1000,
       allowedUpstreamHostPatterns = [Many AnyChar # map (One \<circ> Lit) ''.web.telegram.org''] \<rparr>"

text \<open>The same without host patterns, and with an origin list and a token.\<close>

definition noPatternsConfig :: Config where
  "noPatternsConfig = exampleConfig\<lparr>allowedUpstreamHostPatterns := []\<rparr>"

definition strictConfig :: Config where
  "strictConfig =
     exampleConfig\<lparr>allowedOrigins := [''https://web.telegram.org''], token := Some ''secret123''\<rparr>"

text \<open>What a handler added to the effects.\<close>

definition newEffects :: "Connection \<Rightarrow> Connection \<Rightarrow> effect list" where
  "newEffects before after = drop (length (effects before)) (effects after)"

text \<open>The frames sent on one socket, in the order of the calls.\<close>

fun sentTo :: "leg \<Rightarrow> effect list \<Rightarrow> Buffer list" where
  "sentTo l [] = []"
| "sentTo l (Send l' d # es) = (if l' = l then d # sentTo l es else sentTo l es)"
| "sentTo l (e # es) = sentTo l es"

text \<open>
  The binary frames of the downstream socket that arrive while the upstream socket is
  connecting or open, in the order of their arrival over a run.
\<close>

fun accepted :: "event \<Rightarrow> Connection \<Rightarrow> Buffer list" where
  "accepted (DownstreamMessage d isBinary b) s =
     (if isBinary \<and> (upstreamReadyState s = CONNECTING \<or> upstreamReadyState s = OPEN)
      then [d] else [])"
| "accepted e s = []"

fun acceptedFrames :: "Config \<Rightarrow> event list \<Rightarrow> Connection \<Rightarrow> Buffer list" where
  "acceptedFrames cfg [] s = []"
| "acceptedFrames cfg (e # es) s = accepted e s @ acceptedFrames cfg es (deliver cfg e s)"

definition flushedWhenOpen :: "Connection \<Rightarrow> bool" where
  "flushedWhenOpen s = (upstreamReadyState s = OPEN \<longrightarrow> pendingMessages s = [])"

text \<open>
  After the cleanup neither socket is open or connecting and the ping interval is
  cleared.
\<close>

definition shutDown :: "Connection \<Rightarrow> bool" where
  "shutDown s =
     (closed s \<longrightarrow>
        downstreamReadyState s \<noteq> OPEN \<and> upstreamReadyState s \<noteq> OPEN
        \<and> upstreamReadyState s \<noteq> CONNECTING \<and> pingTimer s = None)"

text \<open>
  Two runs: the upstream socket opens and then closes with code 1000; the upstream socket
  opens and then the downstream socket closes with code 1000.
\<close>

definition afterUpstreamClosed :: Connection where
  "afterUpstreamClosed = run exampleConfig [UpstreamOpen, UpstreamClose 1000 []] established"

definition afterDownstreamClosed :: Connection where
  "afterDownstreamClosed = run exampleConfig [UpstreamOpen, DownstreamClose 1000 []] established"

text \<open>How often the body of \<^verbatim>\<open>cleanup\<close> has run: once per line it logs.\<close>

fun isConnectionClosedLog :: "effect \<Rightarrow> bool" where
  "isConnectionClosedLog (LogConnectionClosed code reason down up) = True"
| "isConnectionClosedLog e = False"

definition cleanupCount :: "Connection \<Rightarrow> nat" where
  "cleanupCount s = length (filter isConnectionClosedLog (effects s))"

definition counted :: "Connection \<Rightarrow> bool" where
  "counted s = (cleanupCount s = (if closed s then 1 else 0))"

fun isSocketCall :: "effect \<Rightarrow> bool" where
  "isSocketCall (Close l code reason) = True"
| "isSocketCall (Terminate l) = True"
| "isSocketCall e = False"

text \<open>
  The pause and resume calls on one socket alternate, beginning with a pause when the
  socket is not paused: \<open>alternates l paused es\<close> reads the effects \<open>es\<close> from the left,
  \<open>pausedAfter l paused es\<close> is whether the socket is paused at their end.
\<close>

fun alternates :: "leg \<Rightarrow> bool \<Rightarrow> effect list \<Rightarrow> bool" where
  "alternates l paused [] = True"
| "alternates l paused (Pause l' # es) =
     (if l' = l then \<not> paused \<and> alternates l True es else alternates l paused es)"
| "alternates l paused (Resume l' # es) =
     (if l' = l then paused \<and> alternates l False es else alternates l paused es)"
| "alternates l paused (e # es) = alternates l paused es"

fun pausedAfter :: "leg \<Rightarrow> bool \<Rightarrow> effect list \<Rightarrow> bool" where
  "pausedAfter l paused [] = paused"
| "pausedAfter l paused (Pause l' # es) = pausedAfter l (if l' = l then True else paused) es"
| "pausedAfter l paused (Resume l' # es) = pausedAfter l (if l' = l then False else paused) es"
| "pausedAfter l paused (e # es) = pausedAfter l paused es"

definition flowConsistent :: "Connection \<Rightarrow> bool" where
  "flowConsistent s =
     (alternates Downstream False (effects s)
      \<and> pausedAfter Downstream False (effects s) = isPaused (upstreamBackpressure s)
      \<and> alternates Upstream False (effects s)
      \<and> pausedAfter Upstream False (effects s) = isPaused (downstreamBackpressure s))"

section \<open>Theorems\<close>

subsection \<open>What each closure does to each variable\<close>

lemma emit_fields [simp]:
  "bytesDownstreamToUpstream (emit es s) = bytesDownstreamToUpstream s"
  "bytesUpstreamToDownstream (emit es s) = bytesUpstreamToDownstream s"
  "downstreamIdleTimer (emit es s) = downstreamIdleTimer s"
  "pingTimer (emit es s) = pingTimer s"
  "downstreamAlive (emit es s) = downstreamAlive s"
  "closed (emit es s) = closed s"
  "pendingMessages (emit es s) = pendingMessages s"
  "downstreamBackpressure (emit es s) = downstreamBackpressure s"
  "upstreamBackpressure (emit es s) = upstreamBackpressure s"
  "idleTimer (emit es s) = idleTimer s"
  "downstreamReadyState (emit es s) = downstreamReadyState s"
  "upstreamReadyState (emit es s) = upstreamReadyState s"
  "effects (emit es s) = effects s @ es"
  by (simp_all add: emit_def)

lemma resetDownstreamIdleTimer_fields [simp]:
  "bytesDownstreamToUpstream (resetDownstreamIdleTimer s) = bytesDownstreamToUpstream s"
  "bytesUpstreamToDownstream (resetDownstreamIdleTimer s) = bytesUpstreamToDownstream s"
  "downstreamIdleTimer (resetDownstreamIdleTimer s) = Some Active"
  "pingTimer (resetDownstreamIdleTimer s) = pingTimer s"
  "downstreamAlive (resetDownstreamIdleTimer s) = downstreamAlive s"
  "closed (resetDownstreamIdleTimer s) = closed s"
  "pendingMessages (resetDownstreamIdleTimer s) = pendingMessages s"
  "downstreamBackpressure (resetDownstreamIdleTimer s) = downstreamBackpressure s"
  "upstreamBackpressure (resetDownstreamIdleTimer s) = upstreamBackpressure s"
  "idleTimer (resetDownstreamIdleTimer s) = idleTimer s"
  "downstreamReadyState (resetDownstreamIdleTimer s) = downstreamReadyState s"
  "upstreamReadyState (resetDownstreamIdleTimer s) = upstreamReadyState s"
  "effects (resetDownstreamIdleTimer s) = effects s @ (if downstreamIdleTimer s \<noteq> None then [ClearTimer DownstreamIdleTimer] else []) @ [SetTimer DownstreamIdleTimer]"
  by (simp_all add: resetDownstreamIdleTimer_def emit_def)

lemma resetIdleTimer_fields [simp]:
  "bytesDownstreamToUpstream (resetIdleTimer s) = bytesDownstreamToUpstream s"
  "bytesUpstreamToDownstream (resetIdleTimer s) = bytesUpstreamToDownstream s"
  "downstreamIdleTimer (resetIdleTimer s) = downstreamIdleTimer s"
  "pingTimer (resetIdleTimer s) = pingTimer s"
  "downstreamAlive (resetIdleTimer s) = downstreamAlive s"
  "closed (resetIdleTimer s) = closed s"
  "pendingMessages (resetIdleTimer s) = pendingMessages s"
  "downstreamBackpressure (resetIdleTimer s) = downstreamBackpressure s"
  "upstreamBackpressure (resetIdleTimer s) = upstreamBackpressure s"
  "idleTimer (resetIdleTimer s) = Some Active"
  "downstreamReadyState (resetIdleTimer s) = downstreamReadyState s"
  "upstreamReadyState (resetIdleTimer s) = upstreamReadyState s"
  "effects (resetIdleTimer s) = effects s @ (if idleTimer s \<noteq> None then [ClearTimer UpstreamIdleTimer] else []) @ [SetTimer UpstreamIdleTimer]"
  by (simp_all add: resetIdleTimer_def emit_def)

lemma clearIdleTimer_fields [simp]:
  "bytesDownstreamToUpstream (clearIdleTimer s) = bytesDownstreamToUpstream s"
  "bytesUpstreamToDownstream (clearIdleTimer s) = bytesUpstreamToDownstream s"
  "downstreamIdleTimer (clearIdleTimer s) = downstreamIdleTimer s"
  "pingTimer (clearIdleTimer s) = pingTimer s"
  "downstreamAlive (clearIdleTimer s) = downstreamAlive s"
  "closed (clearIdleTimer s) = closed s"
  "pendingMessages (clearIdleTimer s) = pendingMessages s"
  "downstreamBackpressure (clearIdleTimer s) = downstreamBackpressure s"
  "upstreamBackpressure (clearIdleTimer s) = upstreamBackpressure s"
  "idleTimer (clearIdleTimer s) = None"
  "downstreamReadyState (clearIdleTimer s) = downstreamReadyState s"
  "upstreamReadyState (clearIdleTimer s) = upstreamReadyState s"
  "effects (clearIdleTimer s) = effects s @ (if idleTimer s \<noteq> None then [ClearTimer UpstreamIdleTimer] else [])"
  by (simp_all add: clearIdleTimer_def emit_def)

lemma closeOrTerminate_fields [simp]:
  "bytesDownstreamToUpstream (closeOrTerminate l code reason s) = bytesDownstreamToUpstream s"
  "bytesUpstreamToDownstream (closeOrTerminate l code reason s) = bytesUpstreamToDownstream s"
  "downstreamIdleTimer (closeOrTerminate l code reason s) = downstreamIdleTimer s"
  "pingTimer (closeOrTerminate l code reason s) = pingTimer s"
  "downstreamAlive (closeOrTerminate l code reason s) = downstreamAlive s"
  "closed (closeOrTerminate l code reason s) = closed s"
  "pendingMessages (closeOrTerminate l code reason s) = pendingMessages s"
  "downstreamBackpressure (closeOrTerminate l code reason s) = downstreamBackpressure s"
  "upstreamBackpressure (closeOrTerminate l code reason s) = upstreamBackpressure s"
  "idleTimer (closeOrTerminate l code reason s) = idleTimer s"
  "downstreamReadyState (closeOrTerminate l code reason s) = (if l = Downstream then afterCloseCall (downstreamReadyState s) else downstreamReadyState s)"
  "upstreamReadyState (closeOrTerminate l code reason s) = (if l = Upstream then afterCloseCall (upstreamReadyState s) else upstreamReadyState s)"
  "effects (closeOrTerminate l code reason s) = effects s @ [if readyStateOf l s = OPEN then Close l code reason else Terminate l]"
  by (cases l; simp add: closeOrTerminate_def ws_close_def ws_terminate_def emit_def)+

lemma ws_terminate_fields [simp]:
  "bytesDownstreamToUpstream (ws_terminate l s) = bytesDownstreamToUpstream s"
  "bytesUpstreamToDownstream (ws_terminate l s) = bytesUpstreamToDownstream s"
  "downstreamIdleTimer (ws_terminate l s) = downstreamIdleTimer s"
  "pingTimer (ws_terminate l s) = pingTimer s"
  "downstreamAlive (ws_terminate l s) = downstreamAlive s"
  "closed (ws_terminate l s) = closed s"
  "pendingMessages (ws_terminate l s) = pendingMessages s"
  "downstreamBackpressure (ws_terminate l s) = downstreamBackpressure s"
  "upstreamBackpressure (ws_terminate l s) = upstreamBackpressure s"
  "idleTimer (ws_terminate l s) = idleTimer s"
  "downstreamReadyState (ws_terminate l s) = (if l = Downstream then afterCloseCall (downstreamReadyState s) else downstreamReadyState s)"
  "upstreamReadyState (ws_terminate l s) = (if l = Upstream then afterCloseCall (upstreamReadyState s) else upstreamReadyState s)"
  "effects (ws_terminate l s) = effects s @ [Terminate l]"
  by (cases l; simp add: ws_terminate_def emit_def)+

lemma cleanup_fields [simp]:
  "bytesDownstreamToUpstream (cleanup code reason s) = bytesDownstreamToUpstream s"
  "bytesUpstreamToDownstream (cleanup code reason s) = bytesUpstreamToDownstream s"
  "downstreamIdleTimer (cleanup code reason s) = (if closed s then downstreamIdleTimer s else None)"
  "pingTimer (cleanup code reason s) = (if closed s then pingTimer s else None)"
  "downstreamAlive (cleanup code reason s) = downstreamAlive s"
  "closed (cleanup code reason s) = True"
  "pendingMessages (cleanup code reason s) = pendingMessages s"
  "downstreamBackpressure (cleanup code reason s) = downstreamBackpressure s"
  "upstreamBackpressure (cleanup code reason s) = upstreamBackpressure s"
  "idleTimer (cleanup code reason s) = idleTimer s"
  "downstreamReadyState (cleanup code reason s) = (if closed s then downstreamReadyState s else afterCloseCall (downstreamReadyState s))"
  "upstreamReadyState (cleanup code reason s) = (if closed s then upstreamReadyState s else afterCloseCall (upstreamReadyState s))"
  "effects (cleanup code reason s) = (if closed s then effects s
      else effects s
           @ [LogConnectionClosed code reason
                (bytesDownstreamToUpstream s) (bytesUpstreamToDownstream s)]
           @ (if downstreamIdleTimer s \<noteq> None then [ClearTimer DownstreamIdleTimer] else [])
           @ (if pingTimer s \<noteq> None then [ClearTimer PingTimer] else [])
           @ [if downstreamReadyState s = OPEN then Close Downstream (safeCode code) reason
              else Terminate Downstream,
              if upstreamReadyState s = OPEN then Close Upstream (safeCode code) reason
              else Terminate Upstream])"
  by (simp_all add: cleanup_def Let_def)

lemmas handler_defs =
  downstream_on_message_def downstream_on_pong_def downstream_on_ping_def
  downstream_on_close_def downstream_on_error_def upstream_on_open_def
  upstream_on_message_def upstream_on_close_def upstream_on_error_def
  downstream_on_drain_def upstream_on_drain_def
  connect_on_open_def connect_on_message_def connect_on_ping_def connect_on_pong_def
  connect_on_close_def connect_on_error_def
  downstreamIdleTimeout_def pingTick_def upstreamIdleTimeout_def

lemma cleanup_when_closed: "closed s \<Longrightarrow> cleanup code reason s = s"
  by (simp add: cleanup_def)

lemma closed_deliver: "closed s \<Longrightarrow> closed (deliver cfg e s)"
  by (cases e) (simp_all add: handler_defs Let_def split: prod.splits)

lemma closed_run: "closed s \<Longrightarrow> closed (run cfg es s)"
  by (induction es arbitrary: s) (simp_all add: closed_deliver)

subsection \<open>The terminal cleanup runs once\<close>

lemma counted_deliver: "counted s \<Longrightarrow> counted (deliver cfg e s)"
  by (cases e; cases "closed s")
     (simp_all add: counted_def cleanupCount_def handler_defs Let_def
        checkBackpressure_def handleDrain_def split: prod.splits)

lemma counted_run: "counted s \<Longrightarrow> counted (run cfg es s)"
  by (induction es arbitrary: s) (simp_all add: counted_deliver)

lemma counted_established: "counted established"
  by (simp add: counted_def established_def cleanupCount_def)

text \<open>
  Claim C1. The terminal cleanup is idempotent. A second invocation right after the first
  changes nothing, neither a variable nor the effects; the same holds for an invocation
  after any further events, with any code and reason; an invocation on a closed connection
  is the identity. The first invocation, on a connection that is not closed, sets
  \<^verbatim>\<open>closed\<close> and has these effects, in this order: the log line with the counters, the
  clearing of the downstream idle timer and of the ping interval where they are set, the
  call that closes or terminates the downstream socket and the one for the upstream
  socket. Over every run of a connection from its establishment the body has run once if
  the connection is closed and not at all otherwise, whichever of the triggers (close or
  error of either socket, idle timeout, ping timeout) came, however often and in whatever
  order.
\<close>

theorem cleanup_idempotent:
  "cleanup code' reason' (cleanup code reason s) = cleanup code reason s
   \<and> cleanup code' reason' (run cfg es (cleanup code reason s)) = run cfg es (cleanup code reason s)
   \<and> (closed s \<longrightarrow> cleanup code reason s = s)
   \<and> (\<not> closed s \<longrightarrow>
        closed (cleanup code reason s)
        \<and> newEffects s (cleanup code reason s) =
            LogConnectionClosed code reason
              (bytesDownstreamToUpstream s) (bytesUpstreamToDownstream s)
            # (if downstreamIdleTimer s \<noteq> None then [ClearTimer DownstreamIdleTimer] else [])
            @ (if pingTimer s \<noteq> None then [ClearTimer PingTimer] else [])
            @ [if downstreamReadyState s = OPEN then Close Downstream (safeCode code) reason
               else Terminate Downstream,
               if upstreamReadyState s = OPEN then Close Upstream (safeCode code) reason
               else Terminate Upstream])
   \<and> cleanupCount (cleanup code reason s) = (if closed s then cleanupCount s else cleanupCount s + 1)
   \<and> cleanupCount (run cfg es established) = (if closed (run cfg es established) then 1 else 0)"
proof -
  have a: "closed (cleanup code reason s)" by simp
  then have b: "closed (run cfg es (cleanup code reason s))" by (rule closed_run)
  have c: "counted (run cfg es established)" by (rule counted_run) (rule counted_established)
  show ?thesis
    using a b c
    by (simp add: cleanup_when_closed counted_def newEffects_def) (simp add: cleanupCount_def)
qed

text \<open>
  A run in which five triggers arrive after the upstream socket has opened: the upstream
  socket closes abnormally, the downstream socket errors and closes, the ping interval and
  the downstream idle timer are due. The body of the cleanup has run once, and the socket
  calls of the whole run are the two of that one execution.
\<close>

theorem cleanup_idempotent_witness:
  "cleanupCount
     (run exampleConfig
        [UpstreamOpen, UpstreamClose 1006 [], DownstreamError, DownstreamClose 1005 [],
         PingTimerFires, DownstreamIdleTimeoutFires] established) = 1
   \<and> filter isSocketCall (effects
       (run exampleConfig
          [UpstreamOpen, UpstreamClose 1006 [], DownstreamError, DownstreamClose 1005 [],
           PingTimerFires, DownstreamIdleTimeoutFires] established)) =
       [Close Downstream 1000 ''Upstream closed'', Terminate Upstream]
   \<and> cleanup 1000 ''again'' (cleanup 1011 ''Upstream error'' established) =
       cleanup 1011 ''Upstream error'' established
   \<and> newEffects established (cleanup 1011 ''Upstream error'' established) =
       [LogConnectionClosed 1011 ''Upstream error'' 0 0, ClearTimer DownstreamIdleTimer,
        ClearTimer PingTimer, Close Downstream 1011 ''Upstream error'', Terminate Upstream]
   \<and> cleanupCount (cleanup 1011 ''Upstream error'' established) = 1"
  using cleanup_idempotent [of 1000 "''again''" 1011 "''Upstream error''" established exampleConfig
          "[UpstreamOpen, UpstreamClose 1006 [], DownstreamError, DownstreamClose 1005 [],
            PingTimerFires, DownstreamIdleTimeoutFires]"]
  by (simp add: handler_defs established_def cleanupCount_def safeCode_def afterCloseCall_def)

subsection \<open>The buffer of frames that arrive before the upstream socket is open\<close>

lemma sentTo_append: "sentTo l (xs @ ys) = sentTo l xs @ sentTo l ys"
  by (induction l xs rule: sentTo.induct) simp_all

lemma sentTo_sends: "sentTo l (map (Send l) xs) = xs"
  by (induction xs) simp_all

lemma sentTo_checkBackpressure [simp]: "sentTo l (snd (checkBackpressure cfg b st l')) = []"
  by (simp add: checkBackpressure_def)

lemma sentTo_handleDrain [simp]: "sentTo l (snd (handleDrain cfg b st l')) = []"
  by (simp add: handleDrain_def)

lemma afterCloseCall_not_open [simp]:
  "afterCloseCall r \<noteq> OPEN" "afterCloseCall r \<noteq> CONNECTING"
  by (simp_all add: afterCloseCall_def)

lemma flushedWhenOpen_deliver: "flushedWhenOpen s \<Longrightarrow> flushedWhenOpen (deliver cfg e s)"
  by (cases e; cases "closed s")
     (simp_all add: flushedWhenOpen_def handler_defs Let_def split: prod.splits)

lemma forwarded_deliver:
  "flushedWhenOpen s \<Longrightarrow>
     sentTo Upstream (effects (deliver cfg e s)) @ pendingMessages (deliver cfg e s) =
     sentTo Upstream (effects s) @ pendingMessages s @ accepted e s"
  by (cases e; cases "closed s")
     (simp_all add: flushedWhenOpen_def handler_defs Let_def sentTo_append sentTo_sends
        case_prod_beta)

lemma forwarded_run:
  "flushedWhenOpen s \<Longrightarrow>
     sentTo Upstream (effects (run cfg es s)) @ pendingMessages (run cfg es s) =
     sentTo Upstream (effects s) @ pendingMessages s @ acceptedFrames cfg es s"
proof (induction es arbitrary: s)
  case Nil
  show ?case by simp
next
  case (Cons e es)
  from Cons.prems have "flushedWhenOpen (deliver cfg e s)" by (rule flushedWhenOpen_deliver)
  then have "sentTo Upstream (effects (run cfg es (deliver cfg e s)))
               @ pendingMessages (run cfg es (deliver cfg e s)) =
             sentTo Upstream (effects (deliver cfg e s)) @ pendingMessages (deliver cfg e s)
               @ acceptedFrames cfg es (deliver cfg e s)"
    by (rule Cons.IH)
  also have "\<dots> = (sentTo Upstream (effects s) @ pendingMessages s @ accepted e s)
               @ acceptedFrames cfg es (deliver cfg e s)"
    using forwarded_deliver [OF Cons.prems, of cfg e] by simp
  finally show ?case by simp
qed

lemma pending_changes:
  "pendingMessages (deliver cfg e s) \<noteq> pendingMessages s \<Longrightarrow>
     upstreamReadyState s = CONNECTING \<and>
     ((\<exists>d b. e = DownstreamMessage d True b
              \<and> pendingMessages (deliver cfg e s) = pendingMessages s @ [d])
      \<or> (e = UpstreamOpen \<and> pendingMessages (deliver cfg e s) = []))"
  by (cases e; cases "closed s")
     (auto simp add: handler_defs Let_def split: prod.splits if_splits)

lemma downstream_binary_frame:
  "(upstreamReadyState s = CONNECTING \<longrightarrow>
      pendingMessages (deliver cfg (DownstreamMessage d True b) s) = pendingMessages s @ [d]
      \<and> sentTo Upstream (effects (deliver cfg (DownstreamMessage d True b) s)) =
          sentTo Upstream (effects s))
   \<and> (upstreamReadyState s = OPEN \<longrightarrow>
      pendingMessages (deliver cfg (DownstreamMessage d True b) s) = pendingMessages s
      \<and> sentTo Upstream (effects (deliver cfg (DownstreamMessage d True b) s)) =
          sentTo Upstream (effects s) @ [d])
   \<and> (upstreamReadyState s = CLOSING \<or> upstreamReadyState s = CLOSED \<longrightarrow>
      pendingMessages (deliver cfg (DownstreamMessage d True b) s) = pendingMessages s
      \<and> sentTo Upstream (effects (deliver cfg (DownstreamMessage d True b) s)) =
          sentTo Upstream (effects s)
      \<and> Log Warn ''Upstream closed/closing, dropping message''
          \<in> set (newEffects s (deliver cfg (DownstreamMessage d True b) s)))"
  by (auto simp add: handler_defs Let_def sentTo_append case_prod_beta newEffects_def)

lemma upstream_open_flushes:
  "upstreamReadyState s = CONNECTING \<longrightarrow>
      pendingMessages (deliver cfg UpstreamOpen s) = []
      \<and> sentTo Upstream (effects (deliver cfg UpstreamOpen s)) =
          sentTo Upstream (effects s) @ pendingMessages s
      \<and> upstreamReadyState (deliver cfg UpstreamOpen s) = OPEN"
  by (simp add: handler_defs Let_def sentTo_append sentTo_sends)

text \<open>
  Claim C2. A binary frame of the downstream socket that arrives while the upstream
  socket is connecting is appended to \<^verbatim>\<open>pendingMessages\<close> and nothing is sent; one that
  arrives while the upstream socket is open is sent at once and the queue is left alone;
  one that arrives while the upstream socket is closing or closed is neither sent nor
  queued, and the drop is logged. The open event sends the queue in its order and empties
  it. Whatever event changes the queue, the upstream socket was connecting, and the event
  was a binary frame, which was appended, or the open event, which emptied the queue. Over
  every run of a connection the frames sent upstream so far, followed by the frames still
  queued, are the binary frames that arrived while the upstream socket was connecting or
  open, each once and in the order of arrival.
\<close>

theorem pending_buffer:
  "(upstreamReadyState s = CONNECTING \<longrightarrow>
      pendingMessages (deliver cfg (DownstreamMessage d True b) s) = pendingMessages s @ [d]
      \<and> sentTo Upstream (effects (deliver cfg (DownstreamMessage d True b) s)) =
          sentTo Upstream (effects s))
   \<and> (upstreamReadyState s = OPEN \<longrightarrow>
      pendingMessages (deliver cfg (DownstreamMessage d True b) s) = pendingMessages s
      \<and> sentTo Upstream (effects (deliver cfg (DownstreamMessage d True b) s)) =
          sentTo Upstream (effects s) @ [d])
   \<and> (upstreamReadyState s = CLOSING \<or> upstreamReadyState s = CLOSED \<longrightarrow>
      pendingMessages (deliver cfg (DownstreamMessage d True b) s) = pendingMessages s
      \<and> sentTo Upstream (effects (deliver cfg (DownstreamMessage d True b) s)) =
          sentTo Upstream (effects s)
      \<and> Log Warn ''Upstream closed/closing, dropping message''
          \<in> set (newEffects s (deliver cfg (DownstreamMessage d True b) s)))
   \<and> (upstreamReadyState s = CONNECTING \<longrightarrow>
      pendingMessages (deliver cfg UpstreamOpen s) = []
      \<and> sentTo Upstream (effects (deliver cfg UpstreamOpen s)) =
          sentTo Upstream (effects s) @ pendingMessages s
      \<and> upstreamReadyState (deliver cfg UpstreamOpen s) = OPEN)
   \<and> (pendingMessages (deliver cfg e s) \<noteq> pendingMessages s \<longrightarrow>
      upstreamReadyState s = CONNECTING
      \<and> ((\<exists>d' b'. e = DownstreamMessage d' True b'
                  \<and> pendingMessages (deliver cfg e s) = pendingMessages s @ [d'])
         \<or> (e = UpstreamOpen \<and> pendingMessages (deliver cfg e s) = [])))
   \<and> sentTo Upstream (effects (run cfg es established)) @ pendingMessages (run cfg es established) =
       acceptedFrames cfg es established"
proof -
  have "sentTo Upstream (effects (run cfg es established))
          @ pendingMessages (run cfg es established) = acceptedFrames cfg es established"
    using forwarded_run [of established cfg es]
    by (simp add: flushedWhenOpen_def established_def)
  moreover have "pendingMessages (deliver cfg e s) \<noteq> pendingMessages s \<longrightarrow>
      upstreamReadyState s = CONNECTING
      \<and> ((\<exists>d' b'. e = DownstreamMessage d' True b'
                  \<and> pendingMessages (deliver cfg e s) = pendingMessages s @ [d'])
         \<or> (e = UpstreamOpen \<and> pendingMessages (deliver cfg e s) = []))"
    using pending_changes [of cfg e s] by blast
  ultimately show ?thesis
    using downstream_binary_frame [of s cfg d b] upstream_open_flushes [of s cfg] by blast
qed

text \<open>
  Three frames arrive before the upstream socket opens, a fourth after: the three are
  queued, the open event sends them in their order, the fourth is sent at once.
\<close>

theorem pending_buffer_witness:
  "pendingMessages
     (run exampleConfig
        [DownstreamMessage ''a'' True 0, DownstreamMessage ''b'' True 0,
         DownstreamMessage ''c'' True 0] established) = [''a'', ''b'', ''c'']
   \<and> sentTo Upstream (effects
       (run exampleConfig
          [DownstreamMessage ''a'' True 0, DownstreamMessage ''b'' True 0,
           DownstreamMessage ''c'' True 0, UpstreamOpen, DownstreamMessage ''d'' True 0]
          established)) = [''a'', ''b'', ''c'', ''d'']
   \<and> pendingMessages
       (run exampleConfig
          [DownstreamMessage ''a'' True 0, DownstreamMessage ''b'' True 0,
           DownstreamMessage ''c'' True 0, UpstreamOpen, DownstreamMessage ''d'' True 0]
          established) = []
   \<and> sentTo Upstream (effects
       (deliver exampleConfig (DownstreamMessage ''e'' True 0) afterUpstreamClosed)) = []"
  using pending_buffer [where cfg = exampleConfig and s = established and d = "''a''" and b = 0
          and e = "DownstreamMessage ''a'' True 0"
          and es = "[DownstreamMessage ''a'' True 0, DownstreamMessage ''b'' True 0,
                     DownstreamMessage ''c'' True 0, UpstreamOpen,
                     DownstreamMessage ''d'' True 0]"]
        pending_buffer [where cfg = exampleConfig
          and s = "run exampleConfig
                     [DownstreamMessage ''a'' True 0, DownstreamMessage ''b'' True 0,
                      DownstreamMessage ''c'' True 0, UpstreamOpen] established"
          and d = "''d''" and b = 0 and e = UpstreamOpen and es = "[]"]
        pending_buffer [where cfg = exampleConfig and s = afterUpstreamClosed
          and d = "''e''" and b = 0 and e = UpstreamOpen and es = "[]"]
  by (simp add: afterUpstreamClosed_def handler_defs Let_def established_def
        checkBackpressure_def exampleConfig_def)

subsection \<open>Frames that are not binary\<close>

text \<open>
  Claim C3, as the specification states it, fails on the downstream leg: the handler of
  server.ts returns right after the log line, before \<^verbatim>\<open>resetDownstreamIdleTimer\<close>. On a
  connection just established a text frame from the client adds one log line and sets no
  timer.
\<close>

theorem nonbinary_downstream_counterexample:
  "downstreamIdleTimer established = Some Active
   \<and> newEffects established
        (deliver exampleConfig (DownstreamMessage ''hello'' False 0) established) =
       [Log Warn ''Received non-binary message from downstream, ignoring'']
   \<and> SetTimer DownstreamIdleTimer \<notin> set (newEffects established
        (deliver exampleConfig (DownstreamMessage ''hello'' False 0) established))"
  by (simp add: newEffects_def handler_defs established_def)

text \<open>
  Claim C3, amended. A frame that is not binary is dropped and logged on either leg:
  nothing is sent, no counter changes. On the upstream leg the listener of
  \<^verbatim>\<open>connectUpstream\<close> has reset the upstream idle timer before; on the downstream leg
  the idle timer is left as it was.
\<close>

theorem nonbinary_frames:
  "newEffects s (deliver cfg (DownstreamMessage d False b) s) =
     [Log Warn ''Received non-binary message from downstream, ignoring'']
   \<and> downstreamIdleTimer (deliver cfg (DownstreamMessage d False b) s) = downstreamIdleTimer s
   \<and> bytesDownstreamToUpstream (deliver cfg (DownstreamMessage d False b) s) =
       bytesDownstreamToUpstream s
   \<and> newEffects s (deliver cfg (UpstreamMessage d False b) s) =
       Log Trace ''Received message from upstream''
       # (if idleTimer s \<noteq> None then [ClearTimer UpstreamIdleTimer] else [])
       @ [SetTimer UpstreamIdleTimer,
          Log Warn ''Received non-binary message from upstream, ignoring'']
   \<and> idleTimer (deliver cfg (UpstreamMessage d False b) s) = Some Active
   \<and> bytesUpstreamToDownstream (deliver cfg (UpstreamMessage d False b) s) =
       bytesUpstreamToDownstream s"
  by (simp add: newEffects_def handler_defs)

theorem nonbinary_frames_witness:
  "newEffects established
     (deliver exampleConfig (UpstreamMessage ''hello'' False 0) established) =
     [Log Trace ''Received message from upstream'', SetTimer UpstreamIdleTimer,
      Log Warn ''Received non-binary message from upstream, ignoring'']
   \<and> idleTimer (deliver exampleConfig (UpstreamMessage ''hello'' False 0) established) = Some Active
   \<and> downstreamIdleTimer
       (deliver exampleConfig (DownstreamMessage ''hello'' False 0) established) = Some Active"
  using nonbinary_frames [of established exampleConfig "''hello''" 0]
  by (simp add: established_def)

subsection \<open>Timers and the terminal transition\<close>

lemma shutDown_deliver: "shutDown s \<Longrightarrow> shutDown (deliver cfg e s)"
  by (cases e; cases "closed s")
     (simp_all add: shutDown_def handler_defs Let_def case_prod_beta)

lemma shutDown_run: "shutDown s \<Longrightarrow> shutDown (run cfg es s)"
  by (induction es arbitrary: s) (simp_all add: shutDown_deliver)

lemma shutDown_established: "shutDown established"
  by (simp add: shutDown_def established_def)

text \<open>
  Claim C4, as the specification states it, fails: \<^verbatim>\<open>cleanup\<close> cannot reach
  \<^verbatim>\<open>idleTimer\<close>, a local of \<^verbatim>\<open>connectUpstream\<close>. When the downstream socket closes
  on a connection whose upstream socket is open, the cleanup clears the downstream idle
  timer and the ping interval, and the upstream idle timer stays active; when it fires, its
  callback terminates the upstream socket of the closed connection.
\<close>

theorem upstream_idle_timer_counterexample:
  "closed afterDownstreamClosed
   \<and> downstreamIdleTimer afterDownstreamClosed = None
   \<and> pingTimer afterDownstreamClosed = None
   \<and> idleTimer afterDownstreamClosed = Some Active
   \<and> newEffects afterDownstreamClosed
        (deliver exampleConfig UpstreamIdleTimeoutFires afterDownstreamClosed) =
       [Log Warn ''Upstream idle timeout reached, closing connection'', Terminate Upstream]"
  by (simp add: afterDownstreamClosed_def newEffects_def handler_defs Let_def established_def)

text \<open>
  Claim C4, amended. The first cleanup of a connection clears the downstream idle timer
  and the ping interval and leaves the upstream idle timer as it is. The upstream idle
  timer is cleared by the listeners of \<^verbatim>\<open>connectUpstream\<close> for the close and the error
  event of the upstream socket, which run before the cleanup that the same event
  triggers: after such an event on a connection that was not closed all three timers are
  cleared. The ping interval is never set again: on a closed connection it is cleared.
\<close>

theorem cleanup_cancels_timers:
  "(\<not> closed s \<longrightarrow>
      downstreamIdleTimer (cleanup code reason s) = None
      \<and> pingTimer (cleanup code reason s) = None)
   \<and> idleTimer (cleanup code reason s) = idleTimer s
   \<and> ClearTimer UpstreamIdleTimer \<notin> set (newEffects s (cleanup code reason s))
   \<and> idleTimer (deliver cfg (UpstreamClose code reason) s) = None
   \<and> idleTimer (deliver cfg UpstreamError s) = None
   \<and> (\<not> closed s \<longrightarrow>
      downstreamIdleTimer (deliver cfg (UpstreamClose code reason) s) = None
      \<and> pingTimer (deliver cfg (UpstreamClose code reason) s) = None
      \<and> downstreamIdleTimer (deliver cfg UpstreamError s) = None
      \<and> pingTimer (deliver cfg UpstreamError s) = None)
   \<and> (closed (run cfg es established) \<longrightarrow> pingTimer (run cfg es established) = None)"
proof -
  have "shutDown (run cfg es established)"
    by (rule shutDown_run) (rule shutDown_established)
  then show ?thesis
    by (simp add: shutDown_def newEffects_def handler_defs)
qed

theorem cleanup_cancels_timers_witness:
  "downstreamIdleTimer (cleanup 1000 ''Idle timeout'' established) = None
   \<and> pingTimer (cleanup 1000 ''Idle timeout'' established) = None
   \<and> idleTimer (deliver exampleConfig (UpstreamClose 1000 [])
        (deliver exampleConfig UpstreamOpen established)) = None
   \<and> downstreamIdleTimer (deliver exampleConfig (UpstreamClose 1000 [])
        (deliver exampleConfig UpstreamOpen established)) = None
   \<and> pingTimer (deliver exampleConfig (UpstreamClose 1000 [])
        (deliver exampleConfig UpstreamOpen established)) = None
   \<and> pingTimer afterDownstreamClosed = None"
  using cleanup_cancels_timers [of established 1000 "''Idle timeout''" exampleConfig
          "[UpstreamOpen, DownstreamClose 1000 []]"]
        cleanup_cancels_timers [of "deliver exampleConfig UpstreamOpen established" 1000 "[]"
          exampleConfig "[]"]
  by (simp add: afterDownstreamClosed_def handler_defs Let_def established_def)

subsection \<open>After the terminal transition\<close>

lemma isPaused_handleDrain:
  "isPaused (fst (handleDrain cfg b st l)) \<Longrightarrow> isPaused st"
  by (simp add: handleDrain_def split: if_splits)

lemma closed_frame:
  "shutDown s \<Longrightarrow> closed s \<Longrightarrow>
     pendingMessages (deliver cfg e s) = pendingMessages s
     \<and> pingTimer (deliver cfg e s) = None
     \<and> sentTo l (newEffects s (deliver cfg e s)) = []
     \<and> (isPaused (upstreamBackpressure (deliver cfg e s)) \<longrightarrow> isPaused (upstreamBackpressure s))
     \<and> (isPaused (downstreamBackpressure (deliver cfg e s))
          \<longrightarrow> isPaused (downstreamBackpressure s))"
  by (cases e)
     (simp_all add: shutDown_def newEffects_def handler_defs Let_def case_prod_beta
        isPaused_handleDrain)

text \<open>
  Claim C5, as the specification states it, fails: no handler but \<^verbatim>\<open>cleanup\<close> reads
  \<^verbatim>\<open>closed\<close>. The upstream socket closes; the cleanup closes the downstream socket,
  which is open. A binary frame that the client sent before it saw the close arrives: the
  handler adds its three bytes to the counter and sets the downstream idle timer, which
  the cleanup had cleared.
\<close>

theorem mutation_after_closed_counterexample:
  "closed afterUpstreamClosed
   \<and> bytesDownstreamToUpstream afterUpstreamClosed = 0
   \<and> downstreamIdleTimer afterUpstreamClosed = None
   \<and> bytesDownstreamToUpstream
        (deliver exampleConfig (DownstreamMessage ''abc'' True 0) afterUpstreamClosed) = 3
   \<and> downstreamIdleTimer
        (deliver exampleConfig (DownstreamMessage ''abc'' True 0) afterUpstreamClosed) = Some Active"
  by (simp add: afterUpstreamClosed_def handler_defs Let_def established_def)

text \<open>
  Claim C5, amended. Once \<^verbatim>\<open>closed\<close> is set no event resets it, so it goes from false
  to true at most once, and a further cleanup changes nothing. On a closed connection of
  any run no event changes \<^verbatim>\<open>pendingMessages\<close>, sets the ping interval, forwards a
  frame to either socket or sets an \<^verbatim>\<open>isPaused\<close> flag. (The byte counters, the idle
  timers and \<^verbatim>\<open>downstreamAlive\<close> are still written by the frame, ping and pong handlers,
  and a drain may clear an \<^verbatim>\<open>isPaused\<close> flag.)
\<close>

theorem closed_is_final:
  "(closed s \<longrightarrow> closed (deliver cfg e s) \<and> cleanup code reason s = s)
   \<and> (closed (run cfg es established) \<longrightarrow>
        pendingMessages (deliver cfg e (run cfg es established)) =
          pendingMessages (run cfg es established)
        \<and> pingTimer (deliver cfg e (run cfg es established)) = None
        \<and> sentTo l (newEffects (run cfg es established)
                      (deliver cfg e (run cfg es established))) = []
        \<and> (isPaused (upstreamBackpressure (deliver cfg e (run cfg es established)))
             \<longrightarrow> isPaused (upstreamBackpressure (run cfg es established)))
        \<and> (isPaused (downstreamBackpressure (deliver cfg e (run cfg es established)))
             \<longrightarrow> isPaused (downstreamBackpressure (run cfg es established))))"
proof -
  have "shutDown (run cfg es established)"
    by (rule shutDown_run) (rule shutDown_established)
  then show ?thesis
    using closed_frame [of "run cfg es established" cfg e l]
    by (simp add: closed_deliver cleanup_when_closed)
qed

theorem closed_is_final_witness:
  "closed (deliver exampleConfig (DownstreamMessage ''abc'' True 0) afterUpstreamClosed)
   \<and> cleanup 1000 ''Idle timeout'' afterUpstreamClosed = afterUpstreamClosed
   \<and> pendingMessages
       (deliver exampleConfig (DownstreamMessage ''abc'' True 0) afterUpstreamClosed) = []
   \<and> sentTo Upstream (newEffects afterUpstreamClosed
        (deliver exampleConfig (DownstreamMessage ''abc'' True 0) afterUpstreamClosed)) = []"
  using closed_is_final [of afterUpstreamClosed exampleConfig "DownstreamMessage ''abc'' True 0"
          1000 "''Idle timeout''" "[UpstreamOpen, UpstreamClose 1000 []]" Upstream]
  by (simp add: afterUpstreamClosed_def handler_defs Let_def established_def)

subsection \<open>Admission\<close>

text \<open>
  Claim C6, as the specification states it, fails: the checks for a missing, malformed or
  wrongly schemed upstream URL come before the host patterns are looked at. Without host
  patterns a request with no upstream parameter is closed with 4002, and one whose
  upstream URL has the scheme https with 4003.
\<close>

theorem empty_allowlist_counterexample:
  "allowedUpstreamHostPatterns noPatternsConfig = []
   \<and> admission exampleRuntime noPatternsConfig \<lparr>searchParams = Some [], origin = None\<rparr> =
       Rejected 4002 ''Missing upstream URL''
   \<and> admission exampleRuntime noPatternsConfig
        \<lparr>searchParams = Some [(''upstream'', ''https://venus.web.telegram.org/apiws'')],
         origin = None\<rparr> =
       Rejected 4003 ''Invalid upstream protocol''"
  by (simp add: noPatternsConfig_def exampleConfig_def admission_def validateUpstream_def
        exampleRuntime_def)

text \<open>
  Claim C6, amended. Without host patterns every request is rejected and
  \<^verbatim>\<open>connectUpstream\<close> is never reached. The code is 4004 for every request whose
  upstream parameter is there, decodes, parses and has the scheme ws or wss, whatever the
  hostname; a request that fails one of those earlier checks is closed with the code of
  that check.
\<close>

theorem empty_allowlist_rejects:
  "allowedUpstreamHostPatterns cfg = [] \<Longrightarrow>
     (admission rt cfg req = Rejected 1011 ''Internal server error''
      \<or> admission rt cfg req = Rejected 4002 ''Missing upstream URL''
      \<or> admission rt cfg req = Rejected 4002 ''Invalid upstream URL''
      \<or> admission rt cfg req = Rejected 4003 ''Invalid upstream protocol''
      \<or> admission rt cfg req = Rejected 4004 ''No upstream host patterns configured'')
     \<and> (searchParams req = Some params \<and> map_of params ''upstream'' = Some u \<and> u \<noteq> []
        \<and> decodeURIComponent rt u = Some url \<and> newURL rt url = Some parsed
        \<and> (protocol parsed = ''wss:'' \<or> protocol parsed = ''ws:'')
        \<longrightarrow> admission rt cfg req = Rejected 4004 ''No upstream host patterns configured'')"
  by (auto simp add: admission_def validateUpstream_def split: option.splits)

theorem empty_allowlist_rejects_witness:
  "admission exampleRuntime noPatternsConfig
     \<lparr>searchParams = Some [(''upstream'', ''wss://venus.web.telegram.org/apiws'')],
      origin = None\<rparr> =
     Rejected 4004 ''No upstream host patterns configured''"
proof -
  have "allowedUpstreamHostPatterns noPatternsConfig = []"
    by (simp add: noPatternsConfig_def)
  moreover have "map_of [(''upstream'', ''wss://venus.web.telegram.org/apiws'')] ''upstream'' =
      Some ''wss://venus.web.telegram.org/apiws''"
    by simp
  moreover have "decodeURIComponent exampleRuntime ''wss://venus.web.telegram.org/apiws'' =
      Some ''wss://venus.web.telegram.org/apiws''"
    by (simp add: exampleRuntime_def)
  moreover have "newURL exampleRuntime ''wss://venus.web.telegram.org/apiws'' =
      Some \<lparr>protocol = ''wss:'', hostname = ''venus.web.telegram.org''\<rparr>"
    by (simp add: exampleRuntime_def)
  ultimately show ?thesis
    using empty_allowlist_rejects [where cfg = noPatternsConfig and rt = exampleRuntime
          and req = "\<lparr>searchParams = Some [(''upstream'', ''wss://venus.web.telegram.org/apiws'')],
                    origin = None\<rparr>"
          and params = "[(''upstream'', ''wss://venus.web.telegram.org/apiws'')]"
          and u = "''wss://venus.web.telegram.org/apiws''"
          and url = "''wss://venus.web.telegram.org/apiws''"
          and parsed = "\<lparr>protocol = ''wss:'', hostname = ''venus.web.telegram.org''\<rparr>"]
    by simp
qed

text \<open>
  Claim C10. The checks run in a fixed order. A request without upstream parameter is
  closed with 4002; one whose upstream URL fails the decoding, the parsing, the scheme or
  the host patterns is closed with the code of that check, 4002, 4003 or 4004, whatever
  its origin and token; one that passes these and fails the origin check is closed with
  4000, whatever its token; one that passes the origin check too and fails the token check
  is closed with 4001; one that passes all reaches \<^verbatim>\<open>connectUpstream\<close>. Among the
  checks of the upstream URL the decoding and the parsing (4002) come before the scheme
  (4003), and the scheme before the host patterns (4004).
\<close>

theorem admission_precedence:
  "searchParams req = Some params \<Longrightarrow>
     (map_of params ''upstream'' = None \<or> map_of params ''upstream'' = Some []
        \<longrightarrow> admission rt cfg req = Rejected 4002 ''Missing upstream URL'')
     \<and> (map_of params ''upstream'' = Some u \<and> u \<noteq> []
          \<and> validateUpstream rt cfg u = Inl (code, reason)
        \<longrightarrow> admission rt cfg req = Rejected code reason
            \<and> (code = 4002 \<or> code = 4003 \<or> code = 4004))
     \<and> (map_of params ''upstream'' = Some u \<and> u \<noteq> []
          \<and> validateUpstream rt cfg u = Inr url
          \<and> \<not> validateOrigin cfg (origin req)
        \<longrightarrow> admission rt cfg req = Rejected 4000 ''Origin not allowed'')
     \<and> (map_of params ''upstream'' = Some u \<and> u \<noteq> []
          \<and> validateUpstream rt cfg u = Inr url
          \<and> validateOrigin cfg (origin req)
          \<and> \<not> validateToken cfg (tokenParam params)
        \<longrightarrow> admission rt cfg req = Rejected 4001 ''Invalid or missing token'')
     \<and> (map_of params ''upstream'' = Some u \<and> u \<noteq> []
          \<and> validateUpstream rt cfg u = Inr url
          \<and> validateOrigin cfg (origin req)
          \<and> validateToken cfg (tokenParam params)
        \<longrightarrow> admission rt cfg req = Connecting url)
     \<and> (decodeURIComponent rt u = None
          \<or> (decodeURIComponent rt u = Some decoded \<and> newURL rt decoded = None)
        \<longrightarrow> validateUpstream rt cfg u = Inl (4002, ''Invalid upstream URL''))
     \<and> (decodeURIComponent rt u = Some decoded \<and> newURL rt decoded = Some parsed
          \<and> protocol parsed \<noteq> ''wss:'' \<and> protocol parsed \<noteq> ''ws:''
        \<longrightarrow> validateUpstream rt cfg u = Inl (4003, ''Invalid upstream protocol''))
     \<and> (decodeURIComponent rt u = Some decoded \<and> newURL rt decoded = Some parsed
          \<and> (protocol parsed = ''wss:'' \<or> protocol parsed = ''ws:'')
        \<longrightarrow> validateUpstream rt cfg u =
              (if allowedUpstreamHostPatterns cfg = []
               then Inl (4004, ''No upstream host patterns configured'')
               else if list_ex (\<lambda>pattern. RegExp_test pattern (hostname parsed))
                         (allowedUpstreamHostPatterns cfg)
               then Inr decoded
               else Inl (4004, ''Upstream host not allowed'')))"
  by (auto simp add: admission_def validateUpstream_def Let_def split: option.splits if_splits)

text \<open>
  With an origin list, a token and the pattern \<^verbatim>\<open>*.web.telegram.org\<close>: a request for a
  host that is not allowed, from an origin that is not allowed, is closed with 4004, not
  4000; for an allowed host from that origin with 4000; from the allowed origin without
  token with 4001; with the token it is admitted.
\<close>

theorem admission_precedence_witness:
  "admission exampleRuntime strictConfig
     \<lparr>searchParams = Some [(''upstream'', ''wss://telegram.org.evil.com/apiws'')],
      origin = Some ''https://evil.com''\<rparr> =
     Rejected 4004 ''Upstream host not allowed''
   \<and> admission exampleRuntime strictConfig
     \<lparr>searchParams = Some [(''upstream'', ''wss://venus.web.telegram.org/apiws'')],
      origin = Some ''https://evil.com''\<rparr> =
     Rejected 4000 ''Origin not allowed''
   \<and> admission exampleRuntime strictConfig
     \<lparr>searchParams = Some [(''upstream'', ''wss://venus.web.telegram.org/apiws'')],
      origin = Some ''https://web.telegram.org''\<rparr> =
     Rejected 4001 ''Invalid or missing token''
   \<and> admission exampleRuntime strictConfig
     \<lparr>searchParams = Some [(''upstream'', ''wss://venus.web.telegram.org/apiws''),
                            (''token'', ''secret123'')],
      origin = Some ''https://web.telegram.org''\<rparr> =
     Connecting ''wss://venus.web.telegram.org/apiws''"
proof -
  have evil: "validateUpstream exampleRuntime strictConfig ''wss://telegram.org.evil.com/apiws'' =
      Inl (4004, ''Upstream host not allowed'')"
    by code_simp
  have venus: "validateUpstream exampleRuntime strictConfig ''wss://venus.web.telegram.org/apiws'' =
      Inr ''wss://venus.web.telegram.org/apiws''"
    by code_simp
  have origins:
    "\<not> validateOrigin strictConfig (Some ''https://evil.com'')"
    "validateOrigin strictConfig (Some ''https://web.telegram.org'')"
    by (simp_all add: validateOrigin_def strictConfig_def)
  have tokens:
    "\<not> validateToken strictConfig
         (tokenParam [(''upstream'', ''wss://venus.web.telegram.org/apiws'')])"
    "validateToken strictConfig
       (tokenParam [(''upstream'', ''wss://venus.web.telegram.org/apiws''),
                    (''token'', ''secret123'')])"
    by (simp_all add: validateToken_def tokenParam_def strictConfig_def)
  show ?thesis
    using admission_precedence [where rt = exampleRuntime and cfg = strictConfig
          and req = "\<lparr>searchParams = Some [(''upstream'', ''wss://telegram.org.evil.com/apiws'')],
                    origin = Some ''https://evil.com''\<rparr>"
          and params = "[(''upstream'', ''wss://telegram.org.evil.com/apiws'')]"
          and u = "''wss://telegram.org.evil.com/apiws''"
          and code = 4004 and reason = "''Upstream host not allowed''" and url = "[]"
          and decoded = "''wss://telegram.org.evil.com/apiws''"
          and parsed = "\<lparr>protocol = ''wss:'', hostname = ''telegram.org.evil.com''\<rparr>"]
          admission_precedence [where rt = exampleRuntime and cfg = strictConfig
          and req = "\<lparr>searchParams = Some [(''upstream'', ''wss://venus.web.telegram.org/apiws'')],
                    origin = Some ''https://evil.com''\<rparr>"
          and params = "[(''upstream'', ''wss://venus.web.telegram.org/apiws'')]"
          and u = "''wss://venus.web.telegram.org/apiws''"
          and code = 0 and reason = "[]" and url = "''wss://venus.web.telegram.org/apiws''"
          and decoded = "''wss://venus.web.telegram.org/apiws''"
          and parsed = "\<lparr>protocol = ''wss:'', hostname = ''venus.web.telegram.org''\<rparr>"]
          admission_precedence [where rt = exampleRuntime and cfg = strictConfig
          and req = "\<lparr>searchParams = Some [(''upstream'', ''wss://venus.web.telegram.org/apiws'')],
                    origin = Some ''https://web.telegram.org''\<rparr>"
          and params = "[(''upstream'', ''wss://venus.web.telegram.org/apiws'')]"
          and u = "''wss://venus.web.telegram.org/apiws''"
          and code = 0 and reason = "[]" and url = "''wss://venus.web.telegram.org/apiws''"
          and decoded = "''wss://venus.web.telegram.org/apiws''"
          and parsed = "\<lparr>protocol = ''wss:'', hostname = ''venus.web.telegram.org''\<rparr>"]
          admission_precedence [where rt = exampleRuntime and cfg = strictConfig
          and req = "\<lparr>searchParams = Some [(''upstream'', ''wss://venus.web.telegram.org/apiws''),
                                           (''token'', ''secret123'')],
                    origin = Some ''https://web.telegram.org''\<rparr>"
          and params = "[(''upstream'', ''wss://venus.web.telegram.org/apiws''),
                         (''token'', ''secret123'')]"
          and u = "''wss://venus.web.telegram.org/apiws''"
          and code = 0 and reason = "[]" and url = "''wss://venus.web.telegram.org/apiws''"
          and decoded = "''wss://venus.web.telegram.org/apiws''"
          and parsed = "\<lparr>protocol = ''wss:'', hostname = ''venus.web.telegram.org''\<rparr>"]
          evil venus origins tokens
    by simp
qed

subsection \<open>Backpressure\<close>

lemma pausedAfter_append:
  "pausedAfter l p (xs @ ys) = pausedAfter l (pausedAfter l p xs) ys"
  by (induction l p xs rule: pausedAfter.induct) simp_all

lemma alternates_append:
  "alternates l p (xs @ ys) = (alternates l p xs \<and> alternates l (pausedAfter l p xs) ys)"
  by (induction l p xs rule: alternates.induct) auto

lemma pausedAfter_sends [simp]: "pausedAfter l p (map (Send l') xs) = p"
  by (induction xs) simp_all

lemma alternates_sends [simp]: "alternates l p (map (Send l') xs)"
  by (induction xs) simp_all

lemma flowConsistent_deliver: "flowConsistent s \<Longrightarrow> flowConsistent (deliver cfg e s)"
  by (cases e; cases "closed s")
     (auto simp add: flowConsistent_def handler_defs Let_def alternates_append pausedAfter_append
        checkBackpressure_def handleDrain_def split: prod.splits)

lemma flowConsistent_run: "flowConsistent s \<Longrightarrow> flowConsistent (run cfg es s)"
  by (induction es arbitrary: s) (simp_all add: flowConsistent_deliver)

lemma flowConsistent_established: "flowConsistent established"
  by (simp add: flowConsistent_def established_def)

text \<open>
  Claim C7. With threshold \<open>T = maxBufferedBytes\<close>: after a forwarded frame, when the
  receiver has more than \<open>T\<close> bytes buffered and the flag is false, the flag is set and
  the sender is paused; when the amount is at most \<open>T\<close> or the flag is set already,
  nothing happens. At a drain, when the flag is set and the amount is below \<open>T / 2\<close>, the
  flag is cleared and the sender is resumed; when the amount is \<open>T / 2\<close> or more, in
  particular between \<open>T / 2\<close> and \<open>T\<close>, or the flag is not set, nothing happens. Over
  every run of a connection the pause and resume calls on either socket alternate,
  beginning with a pause, so none is redundant, and the flag of a direction is set exactly
  when its sender is paused.
\<close>

theorem backpressure_hysteresis:
  "(maxBufferedBytes cfg < buffered \<and> \<not> isPaused state \<longrightarrow>
      checkBackpressure cfg buffered state opposite =
        (state\<lparr>isPaused := True\<rparr>,
         [Pause opposite, Log Warn ''Backpressure threshold exceeded, pausing opposite stream'']))
   \<and> (buffered \<le> maxBufferedBytes cfg \<or> isPaused state \<longrightarrow>
      checkBackpressure cfg buffered state opposite = (state, []))
   \<and> (isPaused state \<and> real_of_int buffered < real_of_int (maxBufferedBytes cfg) / 2 \<longrightarrow>
      handleDrain cfg buffered state opposite =
        (state\<lparr>isPaused := False\<rparr>,
         [Resume opposite, Log Info ''Backpressure relieved, resuming opposite stream'']))
   \<and> (real_of_int (maxBufferedBytes cfg) / 2 \<le> real_of_int buffered \<or> \<not> isPaused state \<longrightarrow>
      handleDrain cfg buffered state opposite = (state, []))
   \<and> alternates l False (effects (run cfg es established))
   \<and> pausedAfter Downstream False (effects (run cfg es established)) =
       isPaused (upstreamBackpressure (run cfg es established))
   \<and> pausedAfter Upstream False (effects (run cfg es established)) =
       isPaused (downstreamBackpressure (run cfg es established))"
proof -
  have f: "flowConsistent (run cfg es established)"
    by (rule flowConsistent_run) (rule flowConsistent_established)
  then have "alternates l False (effects (run cfg es established))"
    by (cases l) (simp_all add: flowConsistent_def)
  with f show ?thesis
    by (auto simp add: checkBackpressure_def handleDrain_def flowConsistent_def)
qed

text \<open>
  Threshold 1000: at 1001 buffered bytes the sender is paused, and not paused again while
  the flag is set; a drain at 700 bytes does not resume it, a drain at 499 bytes does.
\<close>

theorem backpressure_hysteresis_witness:
  "checkBackpressure exampleConfig 1001 \<lparr>isPaused = False, totalBytes = 0\<rparr> Downstream =
     (\<lparr>isPaused = True, totalBytes = 0\<rparr>,
      [Pause Downstream, Log Warn ''Backpressure threshold exceeded, pausing opposite stream''])
   \<and> checkBackpressure exampleConfig 1001 \<lparr>isPaused = True, totalBytes = 0\<rparr> Downstream =
     (\<lparr>isPaused = True, totalBytes = 0\<rparr>, [])
   \<and> handleDrain exampleConfig 700 \<lparr>isPaused = True, totalBytes = 0\<rparr> Downstream =
     (\<lparr>isPaused = True, totalBytes = 0\<rparr>, [])
   \<and> handleDrain exampleConfig 499 \<lparr>isPaused = True, totalBytes = 0\<rparr> Downstream =
     (\<lparr>isPaused = False, totalBytes = 0\<rparr>,
      [Resume Downstream, Log Info ''Backpressure relieved, resuming opposite stream''])"
  using backpressure_hysteresis [of exampleConfig 1001 "\<lparr>isPaused = False, totalBytes = 0\<rparr>"
          Downstream Downstream "[]"]
        backpressure_hysteresis [of exampleConfig 1001 "\<lparr>isPaused = True, totalBytes = 0\<rparr>"
          Downstream Downstream "[]"]
        backpressure_hysteresis [of exampleConfig 700 "\<lparr>isPaused = True, totalBytes = 0\<rparr>"
          Downstream Downstream "[]"]
        backpressure_hysteresis [of exampleConfig 499 "\<lparr>isPaused = True, totalBytes = 0\<rparr>"
          Downstream Downstream "[]"]
  by (simp add: exampleConfig_def)

subsection \<open>The close code of the terminal transition\<close>

text \<open>
  Claim C8. The first cleanup of a connection makes two socket calls, on the downstream
  socket and then on the upstream socket: \<^verbatim>\<open>close\<close> with the safe code and the reason
  when the socket is open, \<^verbatim>\<open>terminate\<close> when it is not. The safe code is 1000 when the
  code of the trigger is 1005 or 1006 and the code of the trigger otherwise, so the code
  is replaced exactly for those two.
\<close>

theorem cleanup_close_code:
  "(\<not> closed s \<longrightarrow>
      filter isSocketCall (effects (cleanup code reason s)) =
        filter isSocketCall (effects s)
        @ [if downstreamReadyState s = OPEN then Close Downstream (safeCode code) reason
           else Terminate Downstream,
           if upstreamReadyState s = OPEN then Close Upstream (safeCode code) reason
           else Terminate Upstream])
   \<and> (code = 1005 \<or> code = 1006 \<longrightarrow> safeCode code = 1000)
   \<and> (code \<noteq> 1005 \<and> code \<noteq> 1006 \<longrightarrow> safeCode code = code)
   \<and> (safeCode code \<noteq> code \<longleftrightarrow> code = 1005 \<or> code = 1006)"
  by (auto simp add: safeCode_def)

theorem cleanup_close_code_witness:
  "filter isSocketCall (effects (cleanup 1006 ''gone'' established)) =
     [Close Downstream 1000 ''gone'', Terminate Upstream]
   \<and> filter isSocketCall
        (effects (cleanup 4000 ''bye'' (established\<lparr>upstreamReadyState := OPEN\<rparr>))) =
     [Close Downstream 4000 ''bye'', Close Upstream 4000 ''bye'']
   \<and> safeCode 1005 = 1000 \<and> safeCode 1001 = 1001"
  using cleanup_close_code [of established 1006 "''gone''"]
        cleanup_close_code [of "established\<lparr>upstreamReadyState := OPEN\<rparr>" 4000 "''bye''"]
        cleanup_close_code [of established 1005 "''x''"]
        cleanup_close_code [of established 1001 "''x''"]
  by (simp add: established_def)

subsection \<open>Host patterns\<close>

lemma rx_lex_star: "rx_lex (CHR ''*'' # s) = map_option ((#) TStar) (rx_lex s)"
  by (cases s) (simp_all add: backslash_def)

lemma rx_lex_dotstar:
  "rx_lex (CHR ''.'' # CHR ''*'' # s) = map_option (\<lambda>ts. TDot # TStar # ts) (rx_lex s)"
  by (simp add: backslash_def rx_lex_star option.map_comp comp_def)

lemma rx_lex_escaped:
  "c \<in> set regexSpecial \<Longrightarrow> rx_lex (backslash # c # s) = map_option ((#) (TLit c)) (rx_lex s)"
  by simp

lemma rx_lex_literal:
  "c \<notin> set regexSpecial \<Longrightarrow> c \<noteq> CHR ''*'' \<Longrightarrow>
     rx_lex (c # s) = map_option ((#) (TLit c)) (rx_lex s)"
  by (cases s) (auto simp add: regexSpecial_def)

lemma regexPattern_Nil: "regexPattern [] = []"
  by (simp add: regexPattern_def escapeSpecial_def starToDotStar_def)

lemma regexPattern_Cons:
  "regexPattern (c # p) =
     (if c = CHR ''*'' then ''.*'' else if c \<in> set regexSpecial then [backslash, c] else [c])
     @ regexPattern p"
  by (auto simp add: regexPattern_def escapeSpecial_def starToDotStar_def regexSpecial_def
        backslash_def)

lemma pattern_tokens_star: "pattern_tokens (CHR ''*'') = [TDot, TStar]"
  by (simp add: pattern_tokens_def)

lemma pattern_tokens_other: "c \<noteq> CHR ''*'' \<Longrightarrow> pattern_tokens c = [TLit c]"
  by (simp add: pattern_tokens_def)

lemma pattern_term_star: "pattern_term (CHR ''*'') = Many AnyChar"
  by (simp add: pattern_term_def)

lemma pattern_term_other: "c \<noteq> CHR ''*'' \<Longrightarrow> pattern_term c = One (Lit c)"
  by (simp add: pattern_term_def)

lemma rx_lex_regexPattern: "rx_lex (regexPattern p) = Some (concat (map pattern_tokens p))"
proof (induction p)
  case Nil
  show ?case by (simp add: regexPattern_Nil)
next
  case (Cons c p)
  show ?case
  proof (cases "c = CHR ''*''")
    case True
    then show ?thesis
      by (simp add: regexPattern_Cons rx_lex_dotstar Cons.IH pattern_tokens_star
          del: rx_lex.simps)
  next
    case False
    then show ?thesis
      by (simp add: regexPattern_Cons rx_lex_escaped rx_lex_literal Cons.IH pattern_tokens_other
          del: rx_lex.simps)
  qed
qed

lemma rx_terms_one:
  "a \<noteq> TStar \<Longrightarrow> (\<forall>ts'. ts \<noteq> TStar # ts') \<Longrightarrow>
     rx_terms (a # ts) = map_option ((#) (One (rx_atom_of a))) (rx_terms ts)"
  by (cases "(a # ts)" rule: rx_terms.cases) auto

lemma pattern_tokens_no_star_head: "concat (map pattern_tokens p) \<noteq> TStar # ts'"
  by (cases p) (auto simp add: pattern_tokens_def split: if_splits)

lemma rx_terms_pattern: "rx_terms (concat (map pattern_tokens p)) = Some (map pattern_term p)"
proof (induction p)
  case Nil
  show ?case by simp
next
  case (Cons c p)
  show ?case
  proof (cases "c = CHR ''*''")
    case True
    then show ?thesis by (simp add: pattern_tokens_star pattern_term_star Cons.IH)
  next
    case False
    have "rx_terms (TLit c # concat (map pattern_tokens p)) =
            map_option ((#) (One (rx_atom_of (TLit c)))) (rx_terms (concat (map pattern_tokens p)))"
      by (rule rx_terms_one) (simp_all add: pattern_tokens_no_star_head)
    with False show ?thesis by (simp add: pattern_tokens_other pattern_term_other Cons.IH)
  qed
qed

lemma hostPattern_compiles: "hostPattern p = Some (map pattern_term p)"
  by (simp add: hostPattern_def newRegExp_def rx_lex_regexPattern rx_terms_pattern)

lemma test_many_any:
  "\<forall>c \<in> set h. \<not> lineTerminator c \<Longrightarrow>
     RegExp_test (Many AnyChar # r) h = (\<exists>t \<in> set (suffixes h). RegExp_test r t)"
  by (induction h) auto

lemma test_pattern:
  "\<forall>c \<in> set h. \<not> lineTerminator c \<Longrightarrow>
     RegExp_test (map pattern_term p) h = wildcard_matches p h"
proof (induction p arbitrary: h)
  case Nil
  show ?case by simp
next
  case (Cons c p)
  show ?case
  proof (cases "c = CHR ''*''")
    case True
    have "\<And>t. t \<in> set (suffixes h) \<Longrightarrow> RegExp_test (map pattern_term p) t = wildcard_matches p t"
    proof -
      fix t assume "t \<in> set (suffixes h)"
      then have "set t \<subseteq> set h" by (auto simp add: suffix_def)
      with Cons.prems have "\<forall>c \<in> set t. \<not> lineTerminator c" by blast
      then show "RegExp_test (map pattern_term p) t = wildcard_matches p t" by (rule Cons.IH)
    qed
    with True Cons.prems show ?thesis
      by (simp add: pattern_term_star test_many_any)
  next
    case False
    show ?thesis
    proof (cases h)
      case Nil
      with False show ?thesis by (simp add: pattern_term_other)
    next
      case (Cons d ds)
      with Cons.prems have "\<forall>c \<in> set ds. \<not> lineTerminator c" by simp
      then have "RegExp_test (map pattern_term p) ds = wildcard_matches p ds" by (rule Cons.IH)
      with False Cons show ?thesis by (simp add: pattern_term_other)
    qed
  qed
qed

lemma exampleConfig_patterns:
  "map hostPattern [''*.web.telegram.org''] =
     map Some (allowedUpstreamHostPatterns exampleConfig)"
  by (simp add: hostPattern_compiles exampleConfig_def pattern_term_def)

text \<open>
  Claim C9. Every pattern compiles, and on a hostname without line terminator (the URL
  parser delivers no other) the compiled expression decides what the claim describes:
  an anchored, case-insensitive match in which \<^verbatim>\<open>*\<close> stands for any run of characters
  and every other pattern character for itself. The expression compiled from
  \<^verbatim>\<open>*.telegram.org\<close> matches \<^verbatim>\<open>venus.web.telegram.org\<close> and does not match
  \<^verbatim>\<open>telegram.org.evil.com\<close>.
\<close>

theorem host_pattern_matching:
  "(\<exists>r. hostPattern p = Some r
        \<and> ((\<forall>c \<in> set h. \<not> lineTerminator c) \<longrightarrow> RegExp_test r h = wildcard_matches p h))
   \<and> (\<exists>r. hostPattern ''*.telegram.org'' = Some r
        \<and> RegExp_test r ''venus.web.telegram.org''
        \<and> \<not> RegExp_test r ''telegram.org.evil.com'')"
proof -
  have a: "RegExp_test (map pattern_term ''*.telegram.org'') ''venus.web.telegram.org''"
    by code_simp
  have b: "\<not> RegExp_test (map pattern_term ''*.telegram.org'') ''telegram.org.evil.com''"
    by code_simp
  show ?thesis
    using a b by (simp add: hostPattern_compiles test_pattern)
qed

text \<open>
  Letters of either case match; the pattern does not match the bare domain, which lacks
  the dot.
\<close>

theorem host_pattern_matching_witness:
  "hostPattern ''*.Telegram.org'' =
     Some (Many AnyChar # map (One \<circ> Lit) ''.Telegram.org'')
   \<and> RegExp_test (Many AnyChar # map (One \<circ> Lit) ''.Telegram.org'') ''VENUS.web.telegram.ORG''
   \<and> wildcard_matches ''*.Telegram.org'' ''VENUS.web.telegram.ORG''
   \<and> \<not> RegExp_test (Many AnyChar # map (One \<circ> Lit) ''.Telegram.org'') ''telegram.org''
   \<and> \<not> wildcard_matches ''*.Telegram.org'' ''telegram.org''"
proof -
  have c: "hostPattern ''*.Telegram.org'' =
     Some (Many AnyChar # map (One \<circ> Lit) ''.Telegram.org'')"
    by code_simp
  have t: "\<forall>c \<in> set ''VENUS.web.telegram.ORG''. \<not> lineTerminator c"
          "\<forall>c \<in> set ''telegram.org''. \<not> lineTerminator c"
    by code_simp+
  have w: "wildcard_matches ''*.Telegram.org'' ''VENUS.web.telegram.ORG''"
          "\<not> wildcard_matches ''*.Telegram.org'' ''telegram.org''"
    by code_simp+
  show ?thesis
    using host_pattern_matching [of "''*.Telegram.org''" "''VENUS.web.telegram.ORG''"]
          host_pattern_matching [of "''*.Telegram.org''" "''telegram.org''"]
          c t w
    by simp
qed

end
